theory Spec2Isabelle
  imports Complex_Main "HOL-Library.Sublist" "HOL-Library.AList"
begin

section \<open>JavaScript values\<close>

text \<open>
  The quiz application moves JSON between a generative model, a browser client
  (\<^verbatim>\<open>QuizGenerator.jsx\<close>) and an Express server (\<^verbatim>\<open>server.js\<close>).  A value produced by
  \<^verbatim>\<open>JSON.parse\<close> is one of the constructors below.  Strings are lists of characters with
  codes below 256.  A number is kept in the form its uses need:
  \<^item> \<open>JInt n\<close> is an integer-valued number of magnitude below \<open>10^21\<close>, which
    \<^verbatim>\<open>String\<close> prints as the decimal numeral of \<open>n\<close> (\<open>-0\<close> is \<open>JInt 0\<close>);
  \<^item> \<open>JFrac s\<close> is a finite number that is not an integer, \<open>s\<close> being what \<^verbatim>\<open>String\<close>
    prints for it (\<^verbatim>\<open>"1.5"\<close>, \<^verbatim>\<open>"1e-7"\<close>);
  \<^item> \<open>JHuge s\<close> is a number of magnitude \<open>10^21\<close> or more, infinities included, with
    its printed form (\<^verbatim>\<open>"1e+21"\<close>, \<^verbatim>\<open>"Infinity"\<close>).

  An object is the list of its own properties in insertion order.  The value
  \<^verbatim>\<open>undefined\<close>, which JSON does not have, is \<open>None\<close> of \<open>json option\<close>.
\<close>

datatype json =
    JNull
  | JBool bool
  | JInt int
  | JFrac string
  | JHuge string
  | JStr string
  | JArr "json list"
  | JObj "(string \<times> json) list"

datatype js_error =
    Error string \<comment> \<open>\<^verbatim>\<open>new Error(message)\<close>, thrown by the application\<close>
  | TypeError \<comment> \<open>thrown by the language: a property of \<^verbatim>\<open>null\<close>, an object without a primitive value\<close>
  | SyntaxError \<comment> \<open>thrown by \<^verbatim>\<open>JSON.parse\<close>\<close>

fun get_field :: "json \<Rightarrow> string \<Rightarrow> json option" where
  "get_field (JObj kvs) k = map_of kvs k"
| "get_field _ k = None"

fun set_field :: "json \<Rightarrow> string \<Rightarrow> json \<Rightarrow> json" where
  "set_field (JObj kvs) k v = JObj (AList.update k v kvs)"
| "set_field x k v = x"

fun delete_field :: "json \<Rightarrow> string \<Rightarrow> json" where
  "delete_field (JObj kvs) k = JObj (AList.delete k kvs)"
| "delete_field x k = x"

fun js_truthy :: "json option \<Rightarrow> bool" where
  "js_truthy None = False"
| "js_truthy (Some JNull) = False"
| "js_truthy (Some (JBool b)) = b"
| "js_truthy (Some (JInt n)) = (n \<noteq> 0)"
| "js_truthy (Some (JStr s)) = (s \<noteq> [])"
| "js_truthy (Some _) = True"

fun is_string :: "json option \<Rightarrow> bool" where
  "is_string (Some (JStr s)) = True"
| "is_string _ = False"

subsection \<open>Strings\<close>

definition js_whitespace :: "char \<Rightarrow> bool" where
  "js_whitespace c \<longleftrightarrow> (of_char c :: nat) \<in> {9, 10, 11, 12, 13, 32, 160}"

definition js_trim :: "string \<Rightarrow> string" where
  "js_trim s = rev (dropWhile js_whitespace (rev (dropWhile js_whitespace s)))"

definition lower_char :: "char \<Rightarrow> char" where
  "lower_char c =
     (let n = (of_char c :: nat)
      in if (65 \<le> n \<and> n \<le> 90) \<or> (192 \<le> n \<and> n \<le> 222 \<and> n \<noteq> 215)
         then char_of (n + 32) else c)"

definition js_toLowerCase :: "string \<Rightarrow> string" where
  "js_toLowerCase s = map lower_char s"

definition js_endsWith :: "string \<Rightarrow> string \<Rightarrow> bool" where
  "js_endsWith s t \<longleftrightarrow> suffix t s"

fun js_includes :: "string \<Rightarrow> string \<Rightarrow> bool" where
  "js_includes [] t = (t = [])"
| "js_includes (c # cs) t = (prefix t (c # cs) \<or> js_includes cs t)"

text \<open>
  \<^verbatim>\<open>(s.match(/___/g) || []).length\<close>: the matches of a global regular expression are
  found from left to right and do not overlap.
\<close>

fun count_blanks :: "string \<Rightarrow> nat" where
  "count_blanks (a # b # c # rest) =
     (if a = CHR ''_'' \<and> b = CHR ''_'' \<and> c = CHR ''_''
      then Suc (count_blanks rest) else count_blanks (b # c # rest))"
| "count_blanks _ = 0"

subsection \<open>Numbers and strings\<close>

definition digit_char :: "nat \<Rightarrow> char" where
  "digit_char d = char_of (48 + d)"

fun dec_nat :: "nat \<Rightarrow> string" where
  "dec_nat n = (if n < 10 then [digit_char n] else dec_nat (n div 10) @ [digit_char (n mod 10)])"

declare dec_nat.simps [simp del]

definition dec_int :: "int \<Rightarrow> string" where
  "dec_int n = (if n < 0 then CHR ''-'' # dec_nat (nat (- n)) else dec_nat (nat n))"

text \<open>
  \<^verbatim>\<open>String(v)\<close>.  An array prints its elements joined by commas, \<^verbatim>\<open>null\<close> elements as
  the empty string.  A parsed object prints as \<^verbatim>\<open>[object Object]\<close> through
  \<^verbatim>\<open>Object.prototype.toString\<close>, unless it has an own property \<^verbatim>\<open>toString\<close>: that one
  is never callable, \<^verbatim>\<open>valueOf\<close> yields no primitive, and the conversion throws a
  \<^verbatim>\<open>TypeError\<close> (\<open>None\<close>).
\<close>

fun js_String :: "json \<Rightarrow> string option" and js_join :: "json list \<Rightarrow> string option" where
  "js_String JNull = Some ''null''"
| "js_String (JBool b) = Some (if b then ''true'' else ''false'')"
| "js_String (JInt n) = Some (dec_int n)"
| "js_String (JFrac s) = Some s"
| "js_String (JHuge s) = Some s"
| "js_String (JStr s) = Some s"
| "js_String (JArr xs) = js_join xs"
| "js_String (JObj kvs) =
     (if ''toString'' \<in> fst ` set kvs then None else Some ''[object Object]'')"
| "js_join [] = Some []"
| "js_join [x] = (if x = JNull then Some [] else js_String x)"
| "js_join (x # y # ys) =
     (case (if x = JNull then Some [] else js_String x) of
        None \<Rightarrow> None
      | Some s \<Rightarrow> (case js_join (y # ys) of None \<Rightarrow> None | Some r \<Rightarrow> Some (s @ '','' @ r)))"

fun js_String_opt :: "json option \<Rightarrow> string option" where
  "js_String_opt None = Some ''undefined''"
| "js_String_opt (Some v) = js_String v"

text \<open>
  \<^verbatim>\<open>parseInt(string, radix)\<close> on a string; radix \<open>0\<close> stands for a missing radix.
  \<open>None\<close> is \<^verbatim>\<open>NaN\<close>.  The result is the exact integer that the digits denote; the
  number JavaScript makes of it is that integer rounded to a double, \<open>to_double\<close> below
  (past the twentieth significant digit an engine may round from an approximation).
  The rounding leaves every integer of magnitude up to \<open>2^53\<close> as it is, so it plays no
  part where the program compares the result with \<open>0\<close> and \<open>3\<close>.
\<close>

definition digit_of :: "nat \<Rightarrow> char \<Rightarrow> nat option" where
  "digit_of R c =
     (let n = (of_char c :: nat);
          v = (if 48 \<le> n \<and> n \<le> 57 then Some (n - 48)
               else if 97 \<le> n \<and> n \<le> 122 then Some (n - 87)
               else if 65 \<le> n \<and> n \<le> 90 then Some (n - 55)
               else None)
      in case v of None \<Rightarrow> None | Some d \<Rightarrow> if d < R then Some d else None)"

definition radix_value :: "nat \<Rightarrow> string \<Rightarrow> nat" where
  "radix_value R Z = foldl (\<lambda>a c. case digit_of R c of None \<Rightarrow> a | Some d \<Rightarrow> a * R + d) 0 Z"

definition js_parseInt :: "string \<Rightarrow> nat \<Rightarrow> int option" where
  "js_parseInt input radix =
     (let S = dropWhile js_whitespace input;
          neg = (take 1 S = ''-'');
          S1 = (if take 1 S = ''+'' \<or> take 1 S = ''-'' then drop 1 S else S);
          stripPrefix = (radix = 0 \<or> radix = 16);
          hex = (stripPrefix \<and> (take 2 S1 = ''0x'' \<or> take 2 S1 = ''0X''));
          S2 = (if hex then drop 2 S1 else S1);
          R = (if hex then 16 else if radix = 0 then 10 else radix);
          Z = takeWhile (\<lambda>c. digit_of R c \<noteq> None) S2
      in if radix \<noteq> 0 \<and> (radix < 2 \<or> 36 < radix) then None
         else if Z = [] then None
         else Some ((if neg then - 1 else 1) * int (radix_value R Z)))"

subsection \<open>Numbers\<close>

text \<open>
  A JavaScript number is a double.  The numbers the server computes with are integers,
  the two infinities and \<^verbatim>\<open>NaN\<close>; \<open>Num n\<close> is the double whose value is the integer
  \<open>n\<close>, and \<open>-0\<close> is \<open>Num 0\<close>.
\<close>

datatype number = Num int | Infinity | NegInfinity | NaN

text \<open>The number of binary digits of \<open>n\<close>.\<close>

fun bit_length :: "nat \<Rightarrow> nat" where
  "bit_length n = (if n = 0 then 0 else Suc (bit_length (n div 2)))"

declare bit_length.simps [simp del]

text \<open>
  The double nearest to an integer: the integer keeps its 53 leading binary digits, the
  digits cut off round to the nearest, a tie to the even neighbour, and a result of more
  than 1024 binary digits is an infinity.
\<close>

definition to_double :: "int \<Rightarrow> number" where
  "to_double n =
     (let m = nat \<bar>n\<bar>;
          e = bit_length m - 53;
          q = m div 2 ^ e;
          r = m mod 2 ^ e;
          q' = (if 2 ^ e < 2 * r \<or> (2 * r = 2 ^ e \<and> odd q) then q + 1 else q);
          v = q' * 2 ^ e
      in if 1024 < bit_length v then (if n < 0 then NegInfinity else Infinity)
         else Num (if n < 0 then - int v else int v))"

text \<open>
  The arithmetic of the handlers on such numbers: the exact result, rounded.  An infinity
  times zero is \<^verbatim>\<open>NaN\<close>; a comparison with \<^verbatim>\<open>NaN\<close> is false.
\<close>

fun number_sign :: "number \<Rightarrow> int option" where
  "number_sign (Num n) = Some (sgn n)"
| "number_sign Infinity = Some 1"
| "number_sign NegInfinity = Some (- 1)"
| "number_sign NaN = None"

fun number_minus :: "number \<Rightarrow> int \<Rightarrow> number" where
  "number_minus (Num a) b = to_double (a - b)"
| "number_minus x b = x"

definition number_times :: "number \<Rightarrow> number \<Rightarrow> number" where
  "number_times x y =
     (case (x, y) of
        (Num a, Num b) \<Rightarrow> to_double (a * b)
      | _ \<Rightarrow>
          (case (number_sign x, number_sign y) of
             (Some s, Some t) \<Rightarrow>
               if s * t = 0 then NaN else if 0 < s * t then Infinity else NegInfinity
           | _ \<Rightarrow> NaN))"

fun number_less :: "number \<Rightarrow> number \<Rightarrow> bool" where
  "number_less (Num a) (Num b) = (a < b)"
| "number_less NaN y = False"
| "number_less x NaN = False"
| "number_less x NegInfinity = False"
| "number_less Infinity y = False"
| "number_less NegInfinity y = True"
| "number_less x Infinity = True"

text \<open>\<^verbatim>\<open>JSON.stringify\<close> writes an infinity and \<^verbatim>\<open>NaN\<close> as \<^verbatim>\<open>null\<close>.\<close>

fun number_json :: "number \<Rightarrow> json" where
  "number_json (Num n) = JInt n"
| "number_json x = JNull"

section \<open>The quiz data normalizer (\<^verbatim>\<open>QuizGenerator.jsx\<close>)\<close>

definition question_msg :: "nat \<Rightarrow> string \<Rightarrow> js_error" where
  "question_msg questionNum rest = Error (''Question '' @ dec_nat questionNum @ rest)"

text \<open>
  \<^verbatim>\<open>!question.question || typeof question.question !== "string" ||
  question.question.trim() === ""\<close>
\<close>

fun invalid_text :: "json option \<Rightarrow> bool" where
  "invalid_text (Some (JStr t)) = (t = [] \<or> js_trim t = [])"
| "invalid_text _ = True"

definition default_explanation :: "json \<Rightarrow> json" where
  "default_explanation q =
     (let e = get_field q ''explanation''
      in if \<not> js_truthy e \<or> \<not> is_string e then set_field q ''explanation'' (JStr []) else q)"

definition ensure_explanation :: "json \<Rightarrow> json" where
  "ensure_explanation q =
     (let e = get_field q ''explanation''
      in if \<not> js_truthy e \<and> e \<noteq> Some (JStr []) then set_field q ''explanation'' (JStr []) else q)"

text \<open>
  The answer of a True/False question as a boolean:
  \<^verbatim>\<open>typeof a === "boolean" ? a : String(a).toLowerCase() === "true" || String(a) === "1"\<close>
\<close>

fun boolValue :: "json option \<Rightarrow> bool option" where
  "boolValue (Some (JBool b)) = Some b"
| "boolValue v =
     (case js_String_opt v of
        None \<Rightarrow> None
      | Some s \<Rightarrow> Some (js_toLowerCase s = ''true'' \<or> s = ''1''))"

definition validate_true_false :: "json \<Rightarrow> js_error + json" where
  "validate_true_false q =
     (case get_field q ''question'' of
        Some (JStr t) \<Rightarrow>
          (let t1 = js_trim t;
               t2 = (if \<not> js_endsWith t1 ''?'' \<and> \<not> js_endsWith t1 ''.'' then t1 @ ''.'' else t1);
               q1 = set_field q ''question'' (JStr t2)
           in case boolValue (get_field q1 ''correctAnswer'') of
                None \<Rightarrow> Inl TypeError
              | Some b \<Rightarrow>
                  Inr (delete_field
                         (set_field q1 ''correctAnswer'' (JInt (if b then 0 else 1)))
                         ''options''))
      | _ \<Rightarrow> Inl TypeError)"

definition validate_answer_index :: "nat \<Rightarrow> json \<Rightarrow> js_error + json" where
  "validate_answer_index questionNum q =
     (case js_String_opt (get_field q ''correctAnswer'') of
        None \<Rightarrow> Inl TypeError
      | Some s \<Rightarrow>
          (case js_parseInt s 10 of
             None \<Rightarrow>
               Inl (question_msg questionNum '' has invalid correct answer index. Must be 0-3'')
           | Some answerIndex \<Rightarrow>
               if answerIndex < 0 \<or> answerIndex > 3
               then Inl (question_msg questionNum
                           '' has invalid correct answer index. Must be 0-3'')
               else Inr (set_field q ''correctAnswer'' (JInt answerIndex))))"

definition validate_blank :: "string \<Rightarrow> nat \<Rightarrow> json \<Rightarrow> js_error option" where
  "validate_blank questionType questionNum q =
     (if questionType = ''Fill in the Blanks'' then
        (case get_field q ''question'' of
           Some (JStr t) \<Rightarrow>
             if \<not> js_includes t ''___''
             then Some (question_msg questionNum '' must contain ___ to indicate the blank'')
             else if count_blanks t > 1
             then Some (question_msg questionNum '' should have only one blank (___)'')
             else None
         | _ \<Rightarrow> Some TypeError)
      else None)"

definition validate_choice :: "string \<Rightarrow> nat \<Rightarrow> json \<Rightarrow> js_error + json" where
  "validate_choice questionType questionNum q =
     (case get_field q ''options'' of
        Some (JArr opts) \<Rightarrow>
          if length opts \<noteq> 4
          then Inl (question_msg questionNum '' must have exactly 4 options'')
          else
            (case those (map js_String opts) of
               None \<Rightarrow> Inl TypeError
             | Some strs \<Rightarrow>
                 (let os = map js_trim strs;
                      q1 = set_field q ''options'' (JArr (map JStr os))
                  in if \<exists>opt \<in> set os. opt = []
                     then Inl (question_msg questionNum '' has empty options'')
                     else if length (remdups os) \<noteq> length os
                     then Inl (question_msg questionNum '' has duplicate options'')
                     else
                       (case validate_blank questionType questionNum q1 of
                          Some e \<Rightarrow> Inl e
                        | None \<Rightarrow> validate_answer_index questionNum q1)))
      | _ \<Rightarrow> Inl (question_msg questionNum '' is missing options array''))"

text \<open>The body of the \<^verbatim>\<open>forEach\<close> callback: one question, at its index.\<close>

definition validate_question :: "string \<Rightarrow> nat \<Rightarrow> json \<Rightarrow> js_error + json" where
  "validate_question questionType index q =
     (let questionNum = index + 1
      in if q = JNull then Inl TypeError
         else if invalid_text (get_field q ''question'')
         then Inl (question_msg questionNum '' is missing or has invalid question text'')
         else if get_field q ''correctAnswer'' = None \<or> get_field q ''correctAnswer'' = Some JNull
         then Inl (question_msg questionNum '' is missing the correct answer'')
         else
           (let q1 = default_explanation q
            in case (if questionType = ''True/False'' then validate_true_false q1
                     else validate_choice questionType questionNum q1) of
                 Inl e \<Rightarrow> Inl e
               | Inr q2 \<Rightarrow> Inr (ensure_explanation q2)))"

text \<open>\<^verbatim>\<open>data.forEach((question, index) => ...)\<close>: the first throw ends the loop.\<close>

fun validate_from :: "string \<Rightarrow> nat \<Rightarrow> json list \<Rightarrow> js_error + json list" where
  "validate_from questionType index [] = Inr []"
| "validate_from questionType index (q # qs) =
     (case validate_question questionType index q of
        Inl e \<Rightarrow> Inl e
      | Inr q' \<Rightarrow>
          (case validate_from questionType (Suc index) qs of
             Inl e \<Rightarrow> Inl e
           | Inr qs' \<Rightarrow> Inr (q' # qs')))"

text \<open>
  The \<^verbatim>\<open>try\<close> block of \<^verbatim>\<open>validateAndParseQuizData\<close>.  The argument is the outcome of
  \<^verbatim>\<open>JSON.parse(text)\<close>, \<open>None\<close> when it throws; \<open>numQuestions\<close> and \<open>questionType\<close>
  are the component's state.
\<close>

definition validate_batch :: "int \<Rightarrow> string \<Rightarrow> json option \<Rightarrow> js_error + json list" where
  "validate_batch numQuestions questionType parsed =
     (case parsed of
        None \<Rightarrow> Inl SyntaxError
      | Some (JArr data) \<Rightarrow>
          if int (length data) \<noteq> numQuestions
          then Inl (Error ''Invalid quiz format - questions array mismatch'')
          else validate_from questionType 0 data
      | Some _ \<Rightarrow> Inl (Error ''Invalid quiz format - questions array mismatch''))"

text \<open>
  \<^verbatim>\<open>validateAndParseQuizData\<close> catches whatever its \<^verbatim>\<open>try\<close> block throws, writes it to the
  console and returns \<^verbatim>\<open>null\<close>.  The result is the pair of what was logged and what was
  returned (\<open>None\<close> for \<^verbatim>\<open>null\<close>).
\<close>

definition validateAndParseQuizData ::
  "int \<Rightarrow> string \<Rightarrow> json option \<Rightarrow> js_error option \<times> json list option" where
  "validateAndParseQuizData numQuestions questionType parsed =
     (case validate_batch numQuestions questionType parsed of
        Inl e \<Rightarrow> (Some e, None)
      | Inr data \<Rightarrow> (None, Some data))"

subsection \<open>Formatting before saving\<close>

record formatted_question =
  fq_question :: "json option"
  fq_explanation :: json
  fq_correctAnswer :: "int option"
  fq_options :: "string list option"

fun map_err :: "('a \<Rightarrow> 'e + 'b) \<Rightarrow> 'a list \<Rightarrow> 'e + 'b list" where
  "map_err f [] = Inr []"
| "map_err f (x # xs) =
     (case f x of
        Inl e \<Rightarrow> Inl e
      | Inr y \<Rightarrow> (case map_err f xs of Inl e \<Rightarrow> Inl e | Inr ys \<Rightarrow> Inr (y # ys)))"

text \<open>The callback of \<^verbatim>\<open>quizData.map\<close> in \<^verbatim>\<open>formatQuizQuestions\<close>.\<close>

definition format_question :: "string \<Rightarrow> json \<Rightarrow> js_error + formatted_question" where
  "format_question questionType q =
     (if q = JNull then Inl TypeError
      else
        (let formattedQuestion =
               \<lparr> fq_question = get_field q ''question'',
                 fq_explanation =
                   (case get_field q ''explanation'' of
                      Some e \<Rightarrow> if js_truthy (Some e) then e else JStr []
                    | None \<Rightarrow> JStr []),
                 fq_correctAnswer = None,
                 fq_options = None \<rparr>
         in if questionType = ''True/False'' then
              (case boolValue (get_field q ''correctAnswer'') of
                 None \<Rightarrow> Inl TypeError
               | Some b \<Rightarrow>
                   Inr (formattedQuestion
                          \<lparr> fq_correctAnswer := Some (if b then 0 else 1),
                            fq_options := Some [''True'', ''False''] \<rparr>))
            else if questionType = ''Fill in the Blanks'' \<or> questionType = ''MCQ'' then
              (case js_String_opt (get_field q ''correctAnswer'') of
                 None \<Rightarrow> Inl TypeError
               | Some s \<Rightarrow>
                   (case js_parseInt s 10 of
                      None \<Rightarrow> Inl (Error ''Invalid answer index for MCQ/Fill in the Blanks question'')
                    | Some a \<Rightarrow>
                        (case get_field q ''options'' of
                           Some (JArr opts) \<Rightarrow>
                             if length opts \<noteq> 4
                             then Inl (Error ''Question must have exactly 4 options'')
                             else
                               (case those (map js_String opts) of
                                  None \<Rightarrow> Inl TypeError
                                | Some strs \<Rightarrow>
                                    Inr (formattedQuestion
                                           \<lparr> fq_correctAnswer := Some a,
                                             fq_options := Some strs \<rparr>))
                         | _ \<Rightarrow> Inl (Error ''Question must have exactly 4 options''))))
            else Inr formattedQuestion))"

text \<open>\<^verbatim>\<open>formatQuizQuestions(quizData, questionType)\<close>; \<open>None\<close> is a \<^verbatim>\<open>null\<close> argument.\<close>

definition formatQuizQuestions ::
  "json list option \<Rightarrow> string \<Rightarrow> js_error + formatted_question list" where
  "formatQuizQuestions quizData questionType =
     (case quizData of
        None \<Rightarrow> Inr []
      | Some qs \<Rightarrow> map_err (format_question questionType) qs)"

text \<open>
  The body of the request \<open>saveQuiz\<close> posts to \<^verbatim>\<open>/api/quizzes\<close>, as axios serializes
  it: a property whose value is \<^verbatim>\<open>undefined\<close> is not sent.
\<close>

definition question_payload :: "formatted_question \<Rightarrow> json" where
  "question_payload f =
     JObj ((case fq_question f of None \<Rightarrow> [] | Some v \<Rightarrow> [(''question'', v)]) @
           [(''explanation'', fq_explanation f)] @
           (case fq_correctAnswer f of None \<Rightarrow> [] | Some a \<Rightarrow> [(''correctAnswer'', JInt a)]) @
           (case fq_options f of None \<Rightarrow> [] | Some os \<Rightarrow> [(''options'', JArr (map JStr os))]))"

definition requestPayload ::
  "string \<Rightarrow> int \<Rightarrow> string \<Rightarrow> string \<Rightarrow> string \<Rightarrow> formatted_question list \<Rightarrow> json" where
  "requestPayload topic numQuestions difficulty questionType language formattedQuestions =
     JObj [(''title'', JStr (topic @ '' Quiz'')),
           (''topic'', JStr topic),
           (''numQuestions'', JInt numQuestions),
           (''difficulty'', JStr difficulty),
           (''questionType'', JStr questionType),
           (''language'', JStr (js_toLowerCase language)),
           (''questions'', JArr (map question_payload formattedQuestions))]"

subsection \<open>The representations of a True/False answer named by the specification\<close>

text \<open>
  The specification lists eight representations of a True/False answer (\<^verbatim>\<open>true\<close>,
  \<^verbatim>\<open>false\<close>, \<^verbatim>\<open>"true"\<close>, \<^verbatim>\<open>"false"\<close>, \<^verbatim>\<open>"1"\<close>, \<^verbatim>\<open>"0"\<close>, \<^verbatim>\<open>1\<close>, \<^verbatim>\<open>0\<close>, the words in any
  letter case) and the index it expects for each: \<open>0\<close> for \<^verbatim>\<open>true\<close>, \<^verbatim>\<open>"true"\<close>, \<^verbatim>\<open>"1"\<close>
  and \<^verbatim>\<open>1\<close>, and \<open>1\<close> otherwise.  These two functions follow the specification's words;
  the code is \<open>boolValue\<close> above.
\<close>

fun spec_tf_representation :: "json \<Rightarrow> bool" where
  "spec_tf_representation (JBool b) = True"
| "spec_tf_representation (JInt n) = (n = 1 \<or> n = 0)"
| "spec_tf_representation (JStr s) =
     (js_toLowerCase s = ''true'' \<or> js_toLowerCase s = ''false'' \<or> s = ''1'' \<or> s = ''0'')"
| "spec_tf_representation _ = False"

fun spec_tf_index :: "json \<Rightarrow> int" where
  "spec_tf_index (JBool b) = (if b then 0 else 1)"
| "spec_tf_index (JInt n) = (if n = 1 then 0 else 1)"
| "spec_tf_index (JStr s) = (if js_toLowerCase s = ''true'' \<or> s = ''1'' then 0 else 1)"
| "spec_tf_index _ = 1"

section \<open>The server (\<^verbatim>\<open>server.js\<close>)\<close>

subsection \<open>Request schemas\<close>

text \<open>
  The handlers validate request bodies with Joi schemas, in Joi's default mode, which
  converts while it validates.  The model follows the documented behaviour of the rules the
  schemas use; message texts, which no handler inspects, are left out.  One conversion is a
  parameter: \<open>toNumber\<close> gives the number Joi makes of a string in a numeric field
  (\<open>None\<close> when it makes none).
\<close>

fun safe_number :: "json \<Rightarrow> bool" where
  "safe_number (JInt n) = (\<bar>n\<bar> \<le> 2 ^ 53 - 1)"
| "safe_number (JFrac s) = True"
| "safe_number _ = False"

text \<open>\<^verbatim>\<open>Joi.number()\<close>: a finite number within the safe range, or a string Joi converts to one.\<close>

definition joi_number :: "(string \<Rightarrow> json option) \<Rightarrow> json \<Rightarrow> json option" where
  "joi_number toNumber v =
     (case v of
        JStr s \<Rightarrow>
          (case toNumber s of
             None \<Rightarrow> None
           | Some n \<Rightarrow> if safe_number n then Some n else None)
      | _ \<Rightarrow> if safe_number v then Some v else None)"

text \<open>\<^verbatim>\<open>Joi.number().integer()\<close>, with \<^verbatim>\<open>.min(lo)\<close> when a bound is given.\<close>

definition joi_integer :: "(string \<Rightarrow> json option) \<Rightarrow> int option \<Rightarrow> json \<Rightarrow> int option" where
  "joi_integer toNumber lo v =
     (case joi_number toNumber v of
        Some (JInt n) \<Rightarrow>
          (case lo of None \<Rightarrow> Some n | Some l \<Rightarrow> if l \<le> n then Some n else None)
      | _ \<Rightarrow> None)"

text \<open>\<^verbatim>\<open>Joi.string()\<close>: a string, and not the empty one.\<close>

definition joi_string :: "json \<Rightarrow> string option" where
  "joi_string v = (case v of JStr s \<Rightarrow> if s = [] then None else Some s | _ \<Rightarrow> None)"

text \<open>\<^verbatim>\<open>Joi.string().trim().max(255)\<close>: trimmed first, then checked.\<close>

definition joi_string_trim_max :: "json \<Rightarrow> string option" where
  "joi_string_trim_max v =
     (case v of
        JStr s \<Rightarrow>
          (let t = js_trim s in if t = [] \<or> length t > 255 then None else Some t)
      | _ \<Rightarrow> None)"

text \<open>\<^verbatim>\<open>Joi.string().valid(...)\<close>\<close>

definition joi_valid :: "string list \<Rightarrow> json \<Rightarrow> string option" where
  "joi_valid allowed v =
     (case v of JStr s \<Rightarrow> if s \<in> set allowed then Some s else None | _ \<Rightarrow> None)"

text \<open>\<^verbatim>\<open>Joi.boolean()\<close>: a boolean, or one of the words in any letter case.\<close>

definition joi_boolean :: "json \<Rightarrow> bool option" where
  "joi_boolean v =
     (case v of
        JBool b \<Rightarrow> Some b
      | JStr s \<Rightarrow>
          if js_toLowerCase s = ''true'' then Some True
          else if js_toLowerCase s = ''false'' then Some False
          else None
      | _ \<Rightarrow> None)"

text \<open>\<^verbatim>\<open>.required()\<close> on a key of an object.\<close>

definition required :: "(string \<times> json) list \<Rightarrow> string \<Rightarrow> (json \<Rightarrow> 'a option) \<Rightarrow> 'a option" where
  "required kvs k rule = (case map_of kvs k of None \<Rightarrow> None | Some v \<Rightarrow> rule v)"

text \<open>Without \<^verbatim>\<open>stripUnknown\<close>, a key the schema does not name is an error.\<close>

definition only_keys :: "string list \<Rightarrow> (string \<times> json) list \<Rightarrow> bool" where
  "only_keys allowed kvs \<longleftrightarrow> (\<forall>k \<in> set (map fst kvs). k \<in> set allowed)"

definition difficulties :: "string list" where
  "difficulties = [''Easy'', ''Medium'', ''Hard'']"

definition questionTypes :: "string list" where
  "questionTypes = [''MCQ'', ''True/False'', ''Fill in the Blanks'']"

definition languages :: "string list" where
  "languages = [''english'', ''hindi'', ''spanish'', ''french'', ''german'', ''chinese'',
                ''japanese'', ''korean'', ''arabic'']"

text \<open>
  A question as \<^verbatim>\<open>quizSchema\<close> lets it through, which is also what the \<^verbatim>\<open>questions\<close>
  column of a quiz holds: the server writes that column in one place, from validated
  questions, with unknown keys stripped.
\<close>

record stored_question =
  sq_question :: string
  sq_correctAnswer :: json
  sq_explanation :: "json option"
  sq_options :: "string list"

record quiz_value =
  qv_title :: string
  qv_topic :: "string option"
  qv_numQuestions :: int
  qv_difficulty :: string
  qv_questionType :: string
  qv_language :: string
  qv_questions :: "stored_question list"

text \<open>
  \<^verbatim>\<open>Joi.alternatives().try(Joi.string(), Joi.number(), Joi.boolean()).required()\<close>.  A
  string that is not empty matches the first alternative and stays a string; the empty
  string matches none.
\<close>

definition joi_correctAnswer :: "json \<Rightarrow> json option" where
  "joi_correctAnswer v =
     (case v of
        JStr s \<Rightarrow> if s = [] then None else Some v
      | JBool b \<Rightarrow> Some v
      | _ \<Rightarrow> if safe_number v then Some v else None)"

text \<open>\<^verbatim>\<open>Joi.string().allow("", null).optional()\<close>\<close>

definition joi_explanation :: "json option \<Rightarrow> json option option" where
  "joi_explanation v =
     (case v of
        None \<Rightarrow> Some None
      | Some JNull \<Rightarrow> Some (Some JNull)
      | Some (JStr s) \<Rightarrow> Some (Some (JStr s))
      | Some _ \<Rightarrow> None)"

text \<open>\<^verbatim>\<open>Joi.array().items(Joi.string()).min(2).required()\<close>\<close>

definition joi_options :: "json \<Rightarrow> string list option" where
  "joi_options v =
     (case v of
        JArr xs \<Rightarrow>
          (case those (map joi_string xs) of
             None \<Rightarrow> None
           | Some os \<Rightarrow> if length os < 2 then None else Some os)
      | _ \<Rightarrow> None)"

definition question_item :: "json \<Rightarrow> stored_question option" where
  "question_item v =
     (case v of
        JObj kvs \<Rightarrow>
          (case (required kvs ''question'' joi_string,
                 required kvs ''correctAnswer'' joi_correctAnswer,
                 joi_explanation (map_of kvs ''explanation''),
                 required kvs ''options'' joi_options) of
             (Some q, Some a, Some e, Some os) \<Rightarrow>
               Some \<lparr> sq_question = q, sq_correctAnswer = a, sq_explanation = e,
                      sq_options = os \<rparr>
           | _ \<Rightarrow> None)
      | _ \<Rightarrow> None)"

text \<open>\<^verbatim>\<open>Joi.array().items(...).min(1).required()\<close>\<close>

definition joi_questions :: "json \<Rightarrow> stored_question list option" where
  "joi_questions v =
     (case v of
        JArr xs \<Rightarrow>
          (case those (map question_item xs) of
             None \<Rightarrow> None
           | Some qs \<Rightarrow> if length qs < 1 then None else Some qs)
      | _ \<Rightarrow> None)"

text \<open>
  \<^verbatim>\<open>quizSchema.validate(req.body, { stripUnknown: true, abortEarly: false })\<close>: \<open>None\<close> when
  there is an error, the converted value otherwise.
\<close>

definition quizSchema :: "(string \<Rightarrow> json option) \<Rightarrow> json \<Rightarrow> quiz_value option" where
  "quizSchema toNumber body =
     (case body of
        JObj kvs \<Rightarrow>
          (case (required kvs ''title'' joi_string_trim_max,
                 (case map_of kvs ''topic'' of
                    None \<Rightarrow> Some None
                  | Some v \<Rightarrow> map_option Some (joi_string_trim_max v)),
                 required kvs ''numQuestions'' (joi_integer toNumber (Some 1)),
                 required kvs ''difficulty'' (joi_valid difficulties),
                 required kvs ''questionType'' (joi_valid questionTypes),
                 (case map_of kvs ''language'' of
                    None \<Rightarrow> Some ''english''
                  | Some v \<Rightarrow> joi_valid languages v),
                 required kvs ''questions'' joi_questions) of
             (Some title, Some topic, Some n, Some d, Some qt, Some l, Some qs) \<Rightarrow>
               Some \<lparr> qv_title = title, qv_topic = topic, qv_numQuestions = n,
                      qv_difficulty = d, qv_questionType = qt, qv_language = l,
                      qv_questions = qs \<rparr>
           | _ \<Rightarrow> None)
      | _ \<Rightarrow> None)"

subsection \<open>The database\<close>

text \<open>
  The three tables of \<open>initializeTables\<close>.  A timestamp is a number of time units.  The
  \<^verbatim>\<open>questions\<close> column holds validated questions; the other JSONB columns are passed
  through and stay JSON.  A \<^verbatim>\<open>NULL\<close> is \<open>None\<close>.
\<close>

record quiz_row =
  qz_id :: int
  qz_user_id :: string
  qz_title :: string
  qz_topic :: "string option"
  qz_num_questions :: int
  qz_difficulty :: string
  qz_question_type :: string
  qz_language :: string
  qz_questions :: "stored_question list"
  qz_created_at :: nat
  qz_updated_at :: nat

record result_row =
  rs_id :: int
  rs_user_id :: string
  rs_quiz_id :: int
  rs_score :: int
  rs_total_questions :: int
  rs_user_answers :: json
  rs_completed_at :: nat
  rs_time_taken :: int

record history_row =
  hs_id :: int
  hs_user_id :: string
  hs_quiz_id :: int
  hs_prompt_used :: string
  hs_generation_parameters :: json
  hs_created_at :: nat

record db =
  quizzes :: "quiz_row list"
  quiz_results :: "result_row list"
  quiz_history :: "history_row list"

text \<open>
  What a request takes from its surroundings: the clock, the value the \<^verbatim>\<open>SERIAL\<close>
  sequence of the table it inserts into hands out, and which of its statements the
  database fails (a lost connection, a violated constraint, a value out of range).  A
  statement that fails changes nothing.
\<close>

datatype sql = CONNECT | SELECT nat | INSERT | BEGIN | COMMIT | ROLLBACK

record env =
  now :: nat
  next_id :: int
  fails :: "sql \<Rightarrow> bool"

record response =
  status :: nat
  body :: json

text \<open>
  The error middleware at the end of the chain answers \<^verbatim>\<open>err.statusCode || 500\<close>; the
  errors that reach it carry no status code.  Its \<^verbatim>\<open>message\<close> is the text of the driver
  or of the language and is left out, like the message of a 400 that comes from Joi.
\<close>

definition server_error :: response where
  "server_error = \<lparr> status = 500, body = JObj [(''status'', JStr ''error'')] \<rparr>"

definition validation_error :: response where
  "validation_error =
     \<lparr> status = 400, body = JObj [(''status'', JStr ''error''), (''type'', JStr ''validation'')] \<rparr>"

definition validation_error_msg :: "string \<Rightarrow> response" where
  "validation_error_msg message =
     \<lparr> status = 400,
       body = JObj [(''status'', JStr ''error''), (''type'', JStr ''validation''),
                    (''message'', JStr message)] \<rparr>"

text \<open>
  \<open>simpleAuth\<close> runs in front of every handler of \<^verbatim>\<open>/api\<close>: both headers must be present
  and not empty, and the \<^verbatim>\<open>user-id\<close> header becomes the caller's id.  The handlers below
  are modelled from there, with that id as \<open>userId\<close>.
\<close>

definition unauthorized :: response where
  "unauthorized =
     \<lparr> status = 401,
       body = JObj [(''status'', JStr ''error''), (''message'', JStr ''Authentication required'')] \<rparr>"

definition simpleAuth :: "string option \<Rightarrow> string option \<Rightarrow> string option" where
  "simpleAuth userId username =
     (case (userId, username) of
        (Some u, Some n) \<Rightarrow> if u = [] \<or> n = [] then None else Some u
      | _ \<Rightarrow> None)"

definition opt_str :: "string option \<Rightarrow> json" where
  "opt_str s = (case s of None \<Rightarrow> JNull | Some t \<Rightarrow> JStr t)"

subsection \<open>\<^verbatim>\<open>POST /api/quizzes\<close>\<close>

text \<open>
  The handler after \<open>simpleAuth\<close>.  The insert fails when the database says so, or when
  the id is taken (\<^verbatim>\<open>PRIMARY KEY\<close>).
\<close>

definition insert_quiz :: "env \<Rightarrow> db \<Rightarrow> string \<Rightarrow> quiz_value \<Rightarrow> (quiz_row \<times> db) option" where
  "insert_quiz e d userId v =
     (if fails e INSERT \<or> next_id e \<in> set (map qz_id (quizzes d)) then None
      else
        (let row = \<lparr> qz_id = next_id e, qz_user_id = userId, qz_title = qv_title v,
                      qz_topic = qv_topic v, qz_num_questions = qv_numQuestions v,
                      qz_difficulty = qv_difficulty v, qz_question_type = qv_questionType v,
                      qz_language = (if qv_language v = [] then ''english'' else qv_language v),
                      qz_questions = qv_questions v,
                      qz_created_at = now e, qz_updated_at = now e \<rparr>
         in Some (row, d \<lparr> quizzes := quizzes d @ [row] \<rparr>)))"

definition createQuiz ::
  "(string \<Rightarrow> json option) \<Rightarrow> env \<Rightarrow> db \<Rightarrow> string \<Rightarrow> json \<Rightarrow> response \<times> db" where
  "createQuiz toNumber e d userId reqBody =
     (let body1 = (if \<not> js_truthy (get_field reqBody ''language'')
                   then set_field reqBody ''language'' (JStr ''english'') else reqBody)
      in case quizSchema toNumber body1 of
           None \<Rightarrow> (validation_error, d)
         | Some v \<Rightarrow>
             if length (qv_questions v) = 0
             then (validation_error_msg ''Questions array is required and must not be empty'', d)
             else if qv_numQuestions v \<noteq> int (length (qv_questions v))
             then (validation_error_msg
                     (''numQuestions ('' @ dec_int (qv_numQuestions v) @
                      '') does not match actual number of questions ('' @
                      dec_nat (length (qv_questions v)) @ '')''), d)
             else
               (case find (\<lambda>(idx, q). qv_questionType v = ''MCQ'' \<and> length (sq_options q) < 2)
                       (enumerate 0 (qv_questions v)) of
                  Some (idx, q) \<Rightarrow>
                    (validation_error_msg
                       (''Question '' @ dec_nat (idx + 1) @
                        '' must have at least 2 options for MCQ type''), d)
                | None \<Rightarrow>
                    (case insert_quiz e d userId v of
                       None \<Rightarrow> (server_error, d)
                     | Some (row, d') \<Rightarrow>
                         (\<lparr> status = 201,
                            body = JObj
                              [(''status'', JStr ''success''),
                               (''message'', JStr ''Quiz created successfully''),
                               (''quiz'', JObj
                                  [(''id'', JInt (qz_id row)),
                                   (''title'', JStr (qz_title row)),
                                   (''topic'', opt_str (qz_topic row)),
                                   (''numQuestions'', JInt (qz_num_questions row)),
                                   (''difficulty'', JStr (qz_difficulty row)),
                                   (''questionType'', JStr (qz_question_type row)),
                                   (''language'', JStr (qz_language row))])] \<rparr>, d'))))"

subsection \<open>\<^verbatim>\<open>GET /api/quizzes\<close>\<close>

text \<open>
  \<^verbatim>\<open>parseInt(req.query.page) || 1\<close>: a missing, unreadable or zero value takes the default;
  any other value is the double that \<^verbatim>\<open>parseInt\<close> returns.
\<close>

definition query_int :: "string option \<Rightarrow> int \<Rightarrow> number" where
  "query_int q dflt =
     (case q of
        None \<Rightarrow> Num dflt
      | Some s \<Rightarrow>
          (case js_parseInt s 0 of
             None \<Rightarrow> Num dflt
           | Some n \<Rightarrow> if n = 0 then Num dflt else to_double n))"

definition attempts_of :: "db \<Rightarrow> quiz_row \<Rightarrow> result_row list" where
  "attempts_of d q =
     filter (\<lambda>r. rs_quiz_id r = qz_id q \<and> rs_user_id r = qz_user_id q) (quiz_results d)"

text \<open>\<^verbatim>\<open>MAX(score)\<close>, \<^verbatim>\<open>NULL\<close> over no rows.\<close>

definition max_score :: "result_row list \<Rightarrow> int option" where
  "max_score rs = (if rs = [] then None else Some (Max (set (map rs_score rs))))"

text \<open>
  A number handed to a query as the parameter of \<^verbatim>\<open>LIMIT\<close> or \<^verbatim>\<open>OFFSET\<close> travels as
  its decimal text, and PostgreSQL reads the parameter as a \<^verbatim>\<open>bigint\<close>: the text of an
  infinity, of \<^verbatim>\<open>NaN\<close> and of a double of magnitude \<open>2^63\<close> or more is refused and the
  statement fails (\<open>None\<close>).  Beyond \<open>2^53\<close> the text of a double is rounded to its
  shortest form and may name a neighbour of \<open>n\<close> within the spacing of the doubles; both
  lie beyond the rows of any table.
\<close>

definition pg_bigint :: "number \<Rightarrow> int option" where
  "pg_bigint x =
     (case x of
        Num n \<Rightarrow> if - (2 ^ 63) < n \<and> n < 2 ^ 63 then Some n else None
      | _ \<Rightarrow> None)"

text \<open>
  The rows of the list query: the caller's quizzes, newest first, \<^verbatim>\<open>LIMIT\<close> and
  \<^verbatim>\<open>OFFSET\<close> applied.  PostgreSQL rejects a negative limit or offset.  Quizzes created
  at the same instant keep their order of insertion.
\<close>

definition newest_first :: "quiz_row list \<Rightarrow> quiz_row list" where
  "newest_first rows = sort_key (\<lambda>q. - int (qz_created_at q)) rows"

definition select_quizzes ::
  "env \<Rightarrow> db \<Rightarrow> string \<Rightarrow> number \<Rightarrow> number \<Rightarrow> quiz_row list option" where
  "select_quizzes e d userId limit offset =
     (case (pg_bigint limit, pg_bigint offset) of
        (Some l, Some off) \<Rightarrow>
          if fails e (SELECT 0) \<or> l < 0 \<or> off < 0 then None
          else Some (take (nat l)
                       (drop (nat off)
                          (newest_first (filter (\<lambda>q. qz_user_id q = userId) (quizzes d)))))
      | _ \<Rightarrow> None)"

text \<open>
  \<^verbatim>\<open>parseInt\<close> of the \<^verbatim>\<open>COUNT(*)\<close>: the number of rows, an exact double for every table
  of fewer than \<open>2^53\<close> rows.
\<close>

definition count_quizzes :: "env \<Rightarrow> db \<Rightarrow> string \<Rightarrow> int option" where
  "count_quizzes e d userId =
     (if fails e (SELECT 1) then None
      else Some (int (length (filter (\<lambda>q. qz_user_id q = userId) (quizzes d)))))"

definition quiz_summary :: "db \<Rightarrow> quiz_row \<Rightarrow> json" where
  "quiz_summary d q =
     JObj [(''id'', JInt (qz_id q)),
           (''title'', JStr (qz_title q)),
           (''topic'', opt_str (qz_topic q)),
           (''num_questions'', JInt (qz_num_questions q)),
           (''difficulty'', JStr (qz_difficulty q)),
           (''question_type'', JStr (qz_question_type q)),
           (''created_at'', JInt (int (qz_created_at q))),
           (''attempts_count'', JInt (int (length (attempts_of d q)))),
           (''highest_score'',
              JInt (case max_score (attempts_of d q) of None \<Rightarrow> 0 | Some m \<Rightarrow> m))]"

text \<open>
  \<^verbatim>\<open>Math.ceil(totalQuizzes / limit)\<close>.  The quotient of a count below \<open>2^53\<close> by an
  integer is never rounded across an integer, so its ceiling is the exact one; a count
  divided by an infinity is zero.
\<close>

definition ceil_div :: "int \<Rightarrow> number \<Rightarrow> number" where
  "ceil_div a y =
     (case y of
        Num b \<Rightarrow>
          if b = 0 then (if a = 0 then NaN else if 0 < a then Infinity else NegInfinity)
          else Num (- ((- a) div b))
      | NaN \<Rightarrow> NaN
      | _ \<Rightarrow> Num 0)"

definition listQuizzes ::
  "env \<Rightarrow> db \<Rightarrow> string \<Rightarrow> string option \<Rightarrow> string option \<Rightarrow> response" where
  "listQuizzes e d userId pageParam limitParam =
     (let page = query_int pageParam 1;
          limit = query_int limitParam 10;
          offset = number_times (number_minus page 1) limit
      in case (select_quizzes e d userId limit offset, count_quizzes e d userId) of
           (Some rows, Some totalQuizzes) \<Rightarrow>
             (let totalPages = ceil_div totalQuizzes limit
              in \<lparr> status = 200,
                   body = JObj
                     [(''status'', JStr ''success''),
                      (''quizzes'', JArr (map (quiz_summary d) rows)),
                      (''pagination'', JObj
                         [(''currentPage'', number_json page),
                          (''totalPages'', number_json totalPages),
                          (''totalQuizzes'', JInt totalQuizzes),
                          (''hasMore'', JBool (number_less page totalPages))])] \<rparr>)
         | _ \<Rightarrow> server_error)"

subsection \<open>\<^verbatim>\<open>GET /api/quizzes/:id/take\<close>\<close>

text \<open>
  The path parameter is the integer PostgreSQL reads from it, \<open>None\<close> for a text that is
  no integer, which fails the query.  The query looks the quiz up by its id alone.  When no
  quiz is found the handler throws \<^verbatim>\<open>new NotFoundError(...)\<close>; the file defines no such
  class, so what is thrown is a \<^verbatim>\<open>ReferenceError\<close> and the answer is a 500.
\<close>

definition take_question :: "stored_question \<Rightarrow> json" where
  "take_question q =
     JObj [(''options'', JArr (map JStr (sq_options q))), (''question'', JStr (sq_question q))]"

definition takeQuiz :: "env \<Rightarrow> db \<Rightarrow> string \<Rightarrow> int option \<Rightarrow> response" where
  "takeQuiz e d userId idParam =
     (case idParam of
        None \<Rightarrow> server_error
      | Some qid \<Rightarrow>
          if fails e (SELECT 0) then server_error
          else
            (case filter (\<lambda>q. qz_id q = qid) (quizzes d) of
               [] \<Rightarrow> server_error
             | q # _ \<Rightarrow>
                 \<lparr> status = 200,
                   body = JObj
                     [(''id'', JInt (qz_id q)),
                      (''title'', JStr (qz_title q)),
                      (''topic'', opt_str (qz_topic q)),
                      (''num_questions'', JInt (qz_num_questions q)),
                      (''difficulty'', JStr (qz_difficulty q)),
                      (''question_type'', JStr (qz_question_type q)),
                      (''jsonb_agg'',
                         (if qz_questions q = [] then JNull
                          else JArr (map take_question (qz_questions q))))] \<rparr>))"

subsection \<open>\<^verbatim>\<open>GET /api/quizzes/:id\<close>\<close>

definition not_found :: response where
  "not_found =
     \<lparr> status = 404,
       body = JObj [(''status'', JStr ''error''), (''message'', JStr ''Quiz not found'')] \<rparr>"

text \<open>One attempt as the query aggregates it and the handler reformats it.\<close>

definition attempt_json :: "result_row \<Rightarrow> json" where
  "attempt_json r =
     JObj [(''id'', JInt (rs_id r)),
           (''score'', JInt (rs_score r)),
           (''time_taken'', JInt (rs_time_taken r)),
           (''attempt_date'', JInt (int (rs_completed_at r))),
           (''completed_at'', JInt (int (rs_completed_at r))),
           (''user_answers'', rs_user_answers r),
           (''total_questions'', JInt (rs_total_questions r))]"

text \<open>
  The callback of \<^verbatim>\<open>quizDetails.questions.map\<close>:
  \<^verbatim>\<open>{ question: q.question, options: q.options || [], correctAnswer: q.correctAnswer,
  explanation: q.explanation || "No explanation provided" }\<close>
\<close>

definition detail_question :: "stored_question \<Rightarrow> json" where
  "detail_question q =
     JObj [(''question'', JStr (sq_question q)),
           (''options'', JArr (map JStr (sq_options q))),
           (''correctAnswer'', sq_correctAnswer q),
           (''explanation'',
              (case sq_explanation q of
                 Some x \<Rightarrow> if js_truthy (Some x) then x else JStr ''No explanation provided''
               | None \<Rightarrow> JStr ''No explanation provided''))]"

definition getQuizDetail :: "env \<Rightarrow> db \<Rightarrow> string \<Rightarrow> int option \<Rightarrow> response option" where
  "getQuizDetail e d userId idParam =
     (if fails e CONNECT then None
      else
        (case idParam of
           None \<Rightarrow> Some server_error
         | Some qid \<Rightarrow>
             if fails e (SELECT 0) then Some server_error
             else
               (case filter (\<lambda>q. qz_id q = qid \<and> qz_user_id q = userId) (quizzes d) of
                  [] \<Rightarrow> Some not_found
                | q # _ \<Rightarrow>
                    (let attempts =
                           filter (\<lambda>r. rs_quiz_id r = qid \<and> rs_user_id r = userId)
                             (quiz_results d)
                     in Some
                          \<lparr> status = 200,
                            body = JObj
                              [(''status'', JStr ''success''),
                               (''quiz'', JObj
                                  [(''id'', JInt (qz_id q)),
                                   (''topic'', opt_str (qz_topic q)),
                                   (''title'', JStr (qz_title q)),
                                   (''difficulty'', JStr (qz_difficulty q)),
                                   (''question_type'', JStr (qz_question_type q)),
                                   (''num_questions'', JInt (qz_num_questions q)),
                                   (''created_at'', JInt (int (qz_created_at q))),
                                   (''highest_score'',
                                      JInt (case max_score attempts of
                                              None \<Rightarrow> 0 | Some m \<Rightarrow> m)),
                                   (''attempts_count'', JInt (int (length attempts))),
                                   (''questions'',
                                      JArr (map detail_question (qz_questions q))),
                                   (''attempt_history'',
                                      JArr (map attempt_json
                                              (sort_key (\<lambda>r. - int (rs_completed_at r))
                                                 attempts)))])] \<rparr>))))"

subsection \<open>A pooled connection and its transaction\<close>

text \<open>
  The two writing handlers work on a connection of the pool, and what they find and leave
  behind is the state of that connection: the committed tables and, while a transaction is
  open on it, the tables as the transaction has them.  The connection sees the pending state
  of its transaction.  \<^verbatim>\<open>BEGIN\<close> opens a transaction, \<^verbatim>\<open>COMMIT\<close> makes its state the
  committed one, \<^verbatim>\<open>ROLLBACK\<close> drops it; outside a transaction \<^verbatim>\<open>COMMIT\<close> and
  \<^verbatim>\<open>ROLLBACK\<close> do nothing and a write is committed at once.

  The pool takes a connection back as it is and hands it out again as it was given back: a
  transaction that a handler leaves open stays open, with its writes, for the request that
  is handed the connection next, and the \<^verbatim>\<open>COMMIT\<close> of that request commits them.  The
  requests are served one after the other, for which the pool needs one connection.
\<close>

record conn =
  committed :: db
  pending :: "db option"

definition visible :: "conn \<Rightarrow> db" where
  "visible c = (case pending c of None \<Rightarrow> committed c | Some d \<Rightarrow> d)"

definition tx_begin :: "conn \<Rightarrow> conn" where
  "tx_begin c = (case pending c of None \<Rightarrow> c \<lparr> pending := Some (committed c) \<rparr> | Some d \<Rightarrow> c)"

definition tx_write :: "(db \<Rightarrow> db) \<Rightarrow> conn \<Rightarrow> conn" where
  "tx_write f c =
     (case pending c of
        None \<Rightarrow> c \<lparr> committed := f (committed c) \<rparr>
      | Some d \<Rightarrow> c \<lparr> pending := Some (f d) \<rparr>)"

definition tx_commit :: "conn \<Rightarrow> conn" where
  "tx_commit c =
     (case pending c of None \<Rightarrow> c | Some d \<Rightarrow> \<lparr> committed = d, pending = None \<rparr>)"

definition tx_rollback :: "conn \<Rightarrow> conn" where
  "tx_rollback c = c \<lparr> pending := None \<rparr>"

text \<open>The connection over the database \<open>d\<close> with no transaction open.\<close>

definition connect :: "db \<Rightarrow> conn" where
  "connect d = \<lparr> committed = d, pending = None \<rparr>"

text \<open>\<^verbatim>\<open>client.release()\<close>: the connection goes back to the pool in the state it is in.\<close>

definition release :: "conn \<Rightarrow> conn" where
  "release c = c"

text \<open>What a \<^verbatim>\<open>try\<close> block throws, as the \<^verbatim>\<open>catch\<close> block tells it apart.\<close>

datatype thrown = ValidationError "string option" | OtherError

definition error_response :: "thrown \<Rightarrow> response" where
  "error_response t =
     (case t of
        ValidationError None \<Rightarrow> validation_error
      | ValidationError (Some m) \<Rightarrow> validation_error_msg m
      | OtherError \<Rightarrow> server_error)"

text \<open>
  The \<^verbatim>\<open>catch\<close> and \<^verbatim>\<open>finally\<close> blocks shared by the two writing handlers: roll back,
  answer, give the connection back.  When the \<^verbatim>\<open>ROLLBACK\<close> itself fails, the \<^verbatim>\<open>catch\<close>
  block throws, no answer is sent and the connection goes back with its transaction.
\<close>

definition finish :: "env \<Rightarrow> (thrown + response) \<times> conn \<Rightarrow> response option \<times> conn" where
  "finish e outcome =
     (case outcome of
        (Inr resp, c) \<Rightarrow> (Some resp, release c)
      | (Inl t, c) \<Rightarrow>
          if fails e ROLLBACK then (None, release c)
          else (Some (error_response t), release (tx_rollback c)))"

subsection \<open>\<^verbatim>\<open>POST /api/quiz-results\<close>\<close>

record result_value =
  rv_quizId :: int
  rv_score :: int
  rv_totalQuestions :: int
  rv_userAnswers :: json
  rv_timeTaken :: int

text \<open>
  \<^verbatim>\<open>Joi.alternatives().try(Joi.string(), Joi.number(), Joi.boolean(), null).required()\<close>
\<close>

definition joi_answer :: "json \<Rightarrow> json option" where
  "joi_answer v = (if v = JNull then Some v else joi_correctAnswer v)"

text \<open>
  One entry of \<^verbatim>\<open>userAnswers\<close>, converted.  The converted value is only ever written to a
  JSONB column, which keeps the keys of an object ordered by length and then
  alphabetically; the model builds the object in that order.
\<close>

definition answer_item :: "(string \<Rightarrow> json option) \<Rightarrow> json \<Rightarrow> json option" where
  "answer_item toNumber v =
     (case v of
        JObj kvs \<Rightarrow>
          if \<not> only_keys [''questionIndex'', ''answer'', ''correct''] kvs then None
          else
            (case (required kvs ''questionIndex'' (joi_integer toNumber None),
                   required kvs ''answer'' joi_answer,
                   required kvs ''correct'' joi_boolean) of
               (Some i, Some a, Some c) \<Rightarrow>
                 Some (JObj [(''answer'', a), (''correct'', JBool c), (''questionIndex'', JInt i)])
             | _ \<Rightarrow> None)
      | _ \<Rightarrow> None)"

definition joi_userAnswers :: "(string \<Rightarrow> json option) \<Rightarrow> json \<Rightarrow> json option" where
  "joi_userAnswers toNumber v =
     (case v of
        JArr xs \<Rightarrow> map_option JArr (those (map (answer_item toNumber) xs))
      | _ \<Rightarrow> None)"

definition quizResultSchema :: "(string \<Rightarrow> json option) \<Rightarrow> json \<Rightarrow> result_value option" where
  "quizResultSchema toNumber reqBody =
     (case reqBody of
        JObj kvs \<Rightarrow>
          if \<not> only_keys [''quizId'', ''score'', ''totalQuestions'', ''userAnswers'', ''timeTaken''] kvs
          then None
          else
            (case (required kvs ''quizId'' (joi_integer toNumber None),
                   required kvs ''score'' (joi_integer toNumber (Some 0)),
                   required kvs ''totalQuestions'' (joi_integer toNumber (Some 1)),
                   required kvs ''userAnswers'' (joi_userAnswers toNumber),
                   required kvs ''timeTaken'' (joi_integer toNumber (Some 0))) of
               (Some q, Some s, Some t, Some a, Some tt) \<Rightarrow>
                 Some \<lparr> rv_quizId = q, rv_score = s, rv_totalQuestions = t, rv_userAnswers = a,
                        rv_timeTaken = tt \<rparr>
             | _ \<Rightarrow> None)
      | _ \<Rightarrow> None)"

definition result_json :: "result_row \<Rightarrow> json" where
  "result_json r =
     JObj [(''id'', JInt (rs_id r)),
           (''user_id'', JStr (rs_user_id r)),
           (''quiz_id'', JInt (rs_quiz_id r)),
           (''score'', JInt (rs_score r)),
           (''total_questions'', JInt (rs_total_questions r)),
           (''user_answers'', rs_user_answers r),
           (''completed_at'', JInt (int (rs_completed_at r))),
           (''time_taken'', JInt (rs_time_taken r))]"

text \<open>The row of the \<^verbatim>\<open>INSERT\<close>: the caller's id, the validated values, the defaults.\<close>

definition new_result_row :: "env \<Rightarrow> string \<Rightarrow> result_value \<Rightarrow> result_row" where
  "new_result_row e userId v =
     \<lparr> rs_id = next_id e, rs_user_id = userId, rs_quiz_id = rv_quizId v,
       rs_score = rv_score v, rs_total_questions = rv_totalQuestions v,
       rs_user_answers = rv_userAnswers v, rs_completed_at = now e,
       rs_time_taken = rv_timeTaken v \<rparr>"

text \<open>The \<^verbatim>\<open>try\<close> block, on the connection.  The quiz is looked up by its id alone.\<close>

definition quiz_result_try ::
  "(string \<Rightarrow> json option) \<Rightarrow> env \<Rightarrow> conn \<Rightarrow> string \<Rightarrow> json \<Rightarrow> (thrown + response) \<times> conn" where
  "quiz_result_try toNumber e c userId reqBody =
     (case quizResultSchema toNumber reqBody of
        None \<Rightarrow> (Inl (ValidationError None), c)
      | Some v \<Rightarrow>
          if fails e (SELECT 0) then (Inl OtherError, c)
          else if filter (\<lambda>q. qz_id q = rv_quizId v) (quizzes (visible c)) = []
          then (Inl (ValidationError (Some ''Invalid quiz ID'')), c)
          else if fails e BEGIN then (Inl OtherError, c)
          else
            (let c1 = tx_begin c;
                 row = new_result_row e userId v
             in if fails e INSERT \<or> next_id e \<in> set (map rs_id (quiz_results (visible c1)))
                then (Inl OtherError, c1)
                else
                  (let c2 = tx_write (\<lambda>d. d \<lparr> quiz_results := quiz_results d @ [row] \<rparr>) c1
                   in if fails e COMMIT then (Inl OtherError, c2)
                      else
                        (Inr \<lparr> status = 201,
                               body = JObj
                                 [(''status'', JStr ''success''),
                                  (''message'', JStr ''Quiz result saved successfully''),
                                  (''result'', result_json row)] \<rparr>,
                         tx_commit c2))))"

text \<open>
  The handler after \<open>simpleAuth\<close>, on the connection \<open>c\<close> that \<^verbatim>\<open>pool.connect()\<close>
  hands out: the answer, if one is sent, and the connection as the request leaves it.
  \<^verbatim>\<open>pool.connect()\<close> is awaited before the \<^verbatim>\<open>try\<close>; when it fails nothing else
  happens.
\<close>

definition postQuizResult ::
  "(string \<Rightarrow> json option) \<Rightarrow> env \<Rightarrow> conn \<Rightarrow> string \<Rightarrow> json \<Rightarrow> response option \<times> conn" where
  "postQuizResult toNumber e c userId reqBody =
     (if fails e CONNECT then (None, c)
      else finish e (quiz_result_try toNumber e c userId reqBody))"

subsection \<open>\<^verbatim>\<open>POST /api/quiz-history\<close>\<close>








subsection \<open>\<^verbatim>\<open>GET /api/statistics\<close>\<close>












subsection \<open>An example database\<close>

text \<open>
  Alice owns one quiz.  Bob sends a result and a history entry that refer to it.  No
  statement fails in \<open>example_env\<close>.
\<close>

definition example_db :: db where
  "example_db =
     \<lparr> quizzes =
         [\<lparr> qz_id = 1, qz_user_id = ''alice'', qz_title = ''Geography Quiz'',
            qz_topic = Some ''Geography'', qz_num_questions = 1, qz_difficulty = ''Easy'',
            qz_question_type = ''True/False'', qz_language = ''english'',
            qz_questions =
              [\<lparr> sq_question = ''The Earth is flat.'', sq_correctAnswer = JInt 1,
                 sq_explanation = Some (JStr ''It is a sphere.''),
                 sq_options = [''True'', ''False''] \<rparr>],
            qz_created_at = 50, qz_updated_at = 50 \<rparr>],
       quiz_results = [], quiz_history = [] \<rparr>"

definition example_env :: env where
  "example_env = \<lparr> now = 70, next_id = 1, fails = (\<lambda>s. False) \<rparr>"

definition example_result :: json where
  "example_result =
     JObj [(''quizId'', JInt 1), (''score'', JInt 1), (''totalQuestions'', JInt 1),
           (''userAnswers'',
              JArr [JObj [(''questionIndex'', JInt 0), (''answer'', JInt 1),
                          (''correct'', JBool True)]]),
           (''timeTaken'', JInt 0)]"


section \<open>Properties of the normalizer\<close>

subsection \<open>Objects and their fields\<close>

lemma get_field_SomeD: "get_field q k = Some v \<Longrightarrow> \<exists>kvs. q = JObj kvs"
  by (cases q) auto

lemma default_explanation_obj:
  "\<exists>kvs'. default_explanation (JObj kvs) = JObj kvs' \<and>
      (\<forall>k. k \<noteq> ''explanation'' \<longrightarrow> map_of kvs' k = map_of kvs k)"
  by (auto simp: default_explanation_def Let_def update_conv')

lemma ensure_explanation_obj:
  "\<exists>kvs'. ensure_explanation (JObj kvs) = JObj kvs' \<and>
      (\<forall>k. k \<noteq> ''explanation'' \<longrightarrow> map_of kvs' k = map_of kvs k)"
  by (auto simp: ensure_explanation_def Let_def update_conv')

subsection \<open>The loop over the batch\<close>

lemma validate_from_Cons_Inr:
  "validate_from qt i (q # qs) = Inr out \<longleftrightarrow>
     (\<exists>o1 os. out = o1 # os \<and> validate_question qt i q = Inr o1 \<and>
        validate_from qt (Suc i) qs = Inr os)"
  by (auto split: sum.splits)


lemma validate_from_Inr_iff:
  "validate_from qt i qs = Inr out \<longleftrightarrow>
     length out = length qs \<and>
     (\<forall>k<length qs. validate_question qt (i + k) (qs ! k) = Inr (out ! k))"
proof (induction qs arbitrary: i out)
  case Nil
  then show ?case by auto
next
  case (Cons q qs)
  show ?case
  proof (cases out)
    case Nil
    then show ?thesis by (simp del: validate_from.simps add: validate_from_Cons_Inr)
  next
    case c: (Cons o1 os)
    have "validate_from qt i (q # qs) = Inr (o1 # os) \<longleftrightarrow>
            validate_question qt i q = Inr o1 \<and> validate_from qt (Suc i) qs = Inr os"
      by (simp del: validate_from.simps add: validate_from_Cons_Inr)
    also have "\<dots> \<longleftrightarrow> validate_question qt i q = Inr o1 \<and> length os = length qs \<and>
                 (\<forall>k<length qs. validate_question qt (Suc i + k) (qs ! k) = Inr (os ! k))"
      using Cons.IH [of "Suc i" os] by simp
    also have "\<dots> \<longleftrightarrow> length (o1 # os) = length (q # qs) \<and>
                 (\<forall>k<length (q # qs).
                     validate_question qt (i + k) ((q # qs) ! k) = Inr ((o1 # os) ! k))"
      by (simp add: All_less_Suc2 conj_ac)
    finally show ?thesis using c by simp
  qed
qed


subsection \<open>True/False questions\<close>

lemma validate_true_false_question:
  assumes q: "get_field q ''question'' = Some (JStr t)" and t: "js_trim t \<noteq> []"
    and v: "get_field q ''correctAnswer'' = Some v" and vn: "v \<noteq> JNull"
    and b: "boolValue (Some v) = Some b"
  shows "\<exists>q'. validate_question ''True/False'' index q = Inr q' \<and>
           get_field q' ''correctAnswer'' = Some (JInt (if b then 0 else 1)) \<and>
           get_field q' ''options'' = None"
proof -
  from q obtain kvs where kvs: "q = JObj kvs" by (auto dest: get_field_SomeD)
  obtain kvs1 where k1: "default_explanation (JObj kvs) = JObj kvs1"
    and same1: "\<forall>k. k \<noteq> ''explanation'' \<longrightarrow> map_of kvs1 k = map_of kvs k"
    using default_explanation_obj by blast
  have tn: "t \<noteq> []" using t by (auto simp: js_trim_def)
  let ?t2 = "if \<not> js_endsWith (js_trim t) ''?'' \<and> \<not> js_endsWith (js_trim t) ''.''
             then js_trim t @ ''.'' else js_trim t"
  let ?r = "delete_field
              (set_field (set_field (JObj kvs1) ''question'' (JStr ?t2))
                 ''correctAnswer'' (JInt (if b then 0 else 1)))
              ''options''"
  have tf: "validate_true_false (JObj kvs1) = Inr ?r"
    using q v b kvs same1
    by (simp add: validate_true_false_def Let_def update_conv' delete_conv')
  obtain kvs2 where k2: "?r = JObj kvs2" by simp
  obtain kvs3 where k3: "ensure_explanation (JObj kvs2) = JObj kvs3"
    and same3: "\<forall>k. k \<noteq> ''explanation'' \<longrightarrow> map_of kvs3 k = map_of kvs2 k"
    using ensure_explanation_obj by blast
  have "validate_question ''True/False'' index q = Inr (JObj kvs3)"
    using q v vn t tn kvs k1 tf k2 k3 by (simp add: validate_question_def Let_def)
  moreover have "get_field (JObj kvs2) ''correctAnswer'' = Some (JInt (if b then 0 else 1))"
    unfolding k2[symmetric] by (simp add: update_conv' delete_conv')
  moreover have "get_field (JObj kvs2) ''options'' = None"
    unfolding k2[symmetric] by (simp add: update_conv' delete_conv')
  ultimately show ?thesis using same3 by simp
qed

lemma dec_int_one: "dec_int 1 = ''1''"
  by code_simp

lemma dec_int_zero: "dec_int 0 = ''0''"
  by code_simp

lemma boolValue_spec:
  assumes "spec_tf_representation v"
  shows "boolValue (Some v) = Some (spec_tf_index v = 0)" and "v \<noteq> JNull"
  using assms
  by (cases v; auto simp: dec_int_one dec_int_zero js_toLowerCase_def)+

lemma spec_tf_index_range: "spec_tf_index v = 0 \<or> spec_tf_index v = 1"
  by (cases v) auto

lemma invalid_text_iff:
  "\<not> invalid_text x \<longleftrightarrow> (\<exists>t. x = Some (JStr t) \<and> js_trim t \<noteq> [])"
  by (cases x rule: invalid_text.cases) (auto simp: js_trim_def)

text \<open>
  Claim C2, as the code has it.  For a batch of \<open>numQuestions\<close> True/False questions, each
  with a non-blank question text and an answer among the eight representations, the
  normalizer accepts the batch; every question gets the index the specification expects
  (\<open>0\<close> for \<^verbatim>\<open>true\<close>, \<^verbatim>\<open>"true"\<close> in any letter case, \<^verbatim>\<open>"1"\<close> and \<^verbatim>\<open>1\<close>, and \<open>1\<close>
  otherwise), and its \<^verbatim>\<open>options\<close> field is deleted: the normalized question has no
  options at all.  The pair \<^verbatim>\<open>["True", "False"]\<close> is attached later, by
  \<open>formatQuizQuestions\<close>.
\<close>

theorem true_false_answer_index:
  assumes len: "int (length data) = numQuestions"
    and ok: "\<forall>q\<in>set data. \<not> invalid_text (get_field q ''question'') \<and>
               (case get_field q ''correctAnswer'' of
                  Some v \<Rightarrow> spec_tf_representation v | None \<Rightarrow> False)"
  shows "\<exists>out. validateAndParseQuizData numQuestions ''True/False'' (Some (JArr data)) = (None, Some out)
           \<and> length out = length data
           \<and> (\<forall>k<length data. \<forall>v. get_field (data ! k) ''correctAnswer'' = Some v \<longrightarrow>
                  get_field (out ! k) ''correctAnswer'' = Some (JInt (spec_tf_index v)) \<and>
                  get_field (out ! k) ''options'' = None)"
proof -
  define res where "res k = validate_question ''True/False'' k (data ! k)" for k
  define out where "out = map (\<lambda>k. projr (res k)) [0..<length data]"
  have each: "\<exists>q'. res k = Inr q' \<and>
                (\<forall>v. get_field (data ! k) ''correctAnswer'' = Some v \<longrightarrow>
                   get_field q' ''correctAnswer'' = Some (JInt (spec_tf_index v)) \<and>
                   get_field q' ''options'' = None)"
    if k: "k < length data" for k
  proof -
    from k have "data ! k \<in> set data" by simp
    with ok have q: "\<not> invalid_text (get_field (data ! k) ''question'')"
      and "\<exists>v. get_field (data ! k) ''correctAnswer'' = Some v \<and> spec_tf_representation v"
      by (auto split: option.splits)
    then obtain t v where t: "get_field (data ! k) ''question'' = Some (JStr t)" "js_trim t \<noteq> []"
      and v: "get_field (data ! k) ''correctAnswer'' = Some v" "spec_tf_representation v"
      by (auto simp: invalid_text_iff)
    from validate_true_false_question [OF t v(1) boolValue_spec(2) boolValue_spec(1), OF v(2) v(2), of k]
    obtain q' where "res k = Inr q'"
      "get_field q' ''correctAnswer'' = Some (JInt (if spec_tf_index v = 0 then 0 else 1))"
      "get_field q' ''options'' = None"
      unfolding res_def by blast
    moreover have "(if spec_tf_index v = 0 then 0 else 1) = spec_tf_index v"
      using spec_tf_index_range [of v] by auto
    ultimately show ?thesis using v(1) by auto
  qed
  have res_out: "res k = Inr (out ! k)" if "k < length data" for k
    using each [OF that] that by (auto simp: out_def)
  have "validate_from ''True/False'' 0 data = Inr out"
    unfolding validate_from_Inr_iff using res_out by (simp add: out_def res_def)
  then have "validateAndParseQuizData numQuestions ''True/False'' (Some (JArr data)) = (None, Some out)"
    using len by (simp add: validateAndParseQuizData_def validate_batch_def)
  moreover have "length out = length data" by (simp add: out_def)
  moreover have "\<forall>k<length data. \<forall>v. get_field (data ! k) ''correctAnswer'' = Some v \<longrightarrow>
                  get_field (out ! k) ''correctAnswer'' = Some (JInt (spec_tf_index v)) \<and>
                  get_field (out ! k) ''options'' = None"
    using each res_out by fastforce
  ultimately show ?thesis by blast
qed

text \<open>
  A two-question batch: the first answers \<^verbatim>\<open>"TRUE"\<close> and brings its own options, the
  second answers \<^verbatim>\<open>0\<close>.
\<close>

theorem true_false_answer_index_witness:
  "int (length [JObj [(''question'', JStr ''The Earth is flat''), (''correctAnswer'', JStr ''TRUE''),
                      (''options'', JArr [JStr ''Yes'', JStr ''No''])],
                JObj [(''question'', JStr ''Water is wet?''), (''correctAnswer'', JInt 0)]]) = 2
   \<and> (\<exists>out. validateAndParseQuizData 2 ''True/False''
          (Some (JArr [JObj [(''question'', JStr ''The Earth is flat''), (''correctAnswer'', JStr ''TRUE''),
                      (''options'', JArr [JStr ''Yes'', JStr ''No''])],
                JObj [(''question'', JStr ''Water is wet?''), (''correctAnswer'', JInt 0)]])) = (None, Some out)
        \<and> get_field (out ! 0) ''correctAnswer'' = Some (JInt 0)
        \<and> get_field (out ! 0) ''options'' = None
        \<and> get_field (out ! 1) ''correctAnswer'' = Some (JInt 1))"
proof -
  let ?data = "[JObj [(''question'', JStr ''The Earth is flat''), (''correctAnswer'', JStr ''TRUE''),
                      (''options'', JArr [JStr ''Yes'', JStr ''No''])],
                JObj [(''question'', JStr ''Water is wet?''), (''correctAnswer'', JInt 0)]]"
  have h1: "int (length ?data) = 2" by simp
  have h2: "\<forall>q\<in>set ?data. \<not> invalid_text (get_field q ''question'') \<and>
               (case get_field q ''correctAnswer'' of
                  Some v \<Rightarrow> spec_tf_representation v | None \<Rightarrow> False)"
    by code_simp
  have i0: "spec_tf_index (JStr ''TRUE'') = 0" by code_simp
  from true_false_answer_index [OF h1 h2] obtain out where
    o: "validateAndParseQuizData 2 ''True/False'' (Some (JArr ?data)) = (None, Some out)"
    and r: "\<forall>k<length ?data. \<forall>v. get_field (?data ! k) ''correctAnswer'' = Some v \<longrightarrow>
                  get_field (out ! k) ''correctAnswer'' = Some (JInt (spec_tf_index v)) \<and>
                  get_field (out ! k) ''options'' = None"
    by blast
  from r have "get_field (out ! 0) ''correctAnswer'' = Some (JInt (spec_tf_index (JStr ''TRUE'')))
      \<and> get_field (out ! 0) ''options'' = None" by simp
  moreover from r have "get_field (out ! 1) ''correctAnswer'' = Some (JInt (spec_tf_index (JInt 0)))"
    by simp
  ultimately show ?thesis using o h1 i0 by simp
qed

text \<open>
  Claim C2 as stated says that the normalizer fixes the options to the pair
  \<^verbatim>\<open>["True", "False"]\<close>.  It does not: here the question arrives with exactly that pair
  and leaves \<open>validateAndParseQuizData\<close> without an \<^verbatim>\<open>options\<close> field.
\<close>

theorem true_false_options_counterexample:
  "validateAndParseQuizData 1 ''True/False''
     (Some (JArr [JObj [(''question'', JStr ''The Earth is flat''), (''correctAnswer'', JBool False),
                        (''options'', JArr [JStr ''True'', JStr ''False''])]]))
   = (None, Some [JObj [(''question'', JStr ''The Earth is flat.''), (''correctAnswer'', JInt 1),
                        (''explanation'', JStr [])]])
   \<and> get_field (JObj [(''question'', JStr ''The Earth is flat.''), (''correctAnswer'', JInt 1),
                        (''explanation'', JStr [])]) ''options''
       \<noteq> Some (JArr [JStr ''True'', JStr ''False''])"
  by code_simp

subsection \<open>Formatting before saving\<close>

lemma map_err_Inr_iff:
  "map_err f xs = Inr ys \<longleftrightarrow> length ys = length xs \<and> (\<forall>k<length xs. f (xs ! k) = Inr (ys ! k))"
proof (induction xs arbitrary: ys)
  case Nil
  then show ?case by auto
next
  case (Cons x xs)
  show ?case
  proof (cases ys)
    case Nil
    then show ?thesis by (auto split: sum.splits)
  next
    case c: (Cons y ys')
    have "map_err f (x # xs) = Inr (y # ys') \<longleftrightarrow> f x = Inr y \<and> map_err f xs = Inr ys'"
      by (auto split: sum.splits)
    also have "\<dots> \<longleftrightarrow> f x = Inr y \<and> length ys' = length xs \<and> (\<forall>k<length xs. f (xs ! k) = Inr (ys' ! k))"
      using Cons.IH [of ys'] by simp
    also have "\<dots> \<longleftrightarrow> length (y # ys') = length (x # xs) \<and>
                 (\<forall>k<length (x # xs). f ((x # xs) ! k) = Inr ((y # ys') ! k))"
      by (simp add: All_less_Suc2 conj_ac)
    finally show ?thesis using c by simp
  qed
qed

lemma validate_true_false_result:
  assumes "validate_question ''True/False'' index q = Inr q'"
  shows "\<exists>i. (i = 0 \<or> i = 1) \<and> get_field q' ''correctAnswer'' = Some (JInt i)"
proof -
  from assms have qn: "\<not> invalid_text (get_field q ''question'')"
    by (auto simp: validate_question_def Let_def split: if_splits)
  then obtain t where t: "get_field q ''question'' = Some (JStr t)"
    by (cases "get_field q ''question''" rule: invalid_text.cases) auto
  then obtain kvs where kvs: "q = JObj kvs" by (auto dest: get_field_SomeD)
  obtain kvs1 where k1: "default_explanation (JObj kvs) = JObj kvs1"
    using default_explanation_obj by blast
  from assms kvs k1 obtain q2 where q2: "validate_true_false (JObj kvs1) = Inr q2"
    and q': "q' = ensure_explanation q2"
    by (auto simp: validate_question_def Let_def split: if_splits sum.splits)
  from q2 obtain b kvs2 where b: "q2 = JObj kvs2"
    "map_of kvs2 ''correctAnswer'' = Some (JInt (if b then 0 else 1))"
    by (auto simp: validate_true_false_def Let_def update_conv' delete_conv'
             split: option.splits json.splits)
  obtain kvs3 where k3: "ensure_explanation (JObj kvs2) = JObj kvs3"
    and same3: "\<forall>k. k \<noteq> ''explanation'' \<longrightarrow> map_of kvs3 k = map_of kvs2 k"
    using ensure_explanation_obj by blast
  have "get_field q' ''correctAnswer'' = Some (JInt (if b then 0 else 1))"
    using q' b k3 same3 by simp
  then show ?thesis by (cases b) auto
qed

lemma format_true_false_index:
  assumes "get_field q ''correctAnswer'' = Some (JInt i)" and "i = 0 \<or> i = 1"
  shows "\<exists>f. format_question ''True/False'' q = Inr f \<and> fq_correctAnswer f = Some (1 - i) \<and>
              fq_options f = Some [''True'', ''False'']"
proof -
  from assms(1) have "q \<noteq> JNull" by auto
  moreover have "boolValue (Some (JInt i)) = Some (i = 1)"
    using assms(2) by (auto simp: dec_int_one dec_int_zero js_toLowerCase_def)
  ultimately show ?thesis using assms
    by (auto simp: format_question_def Let_def)
qed

lemma format_negates_index:
  assumes "validateAndParseQuizData numQuestions ''True/False'' parsed = (logged, Some out)"
  shows "\<exists>fs. formatQuizQuestions (Some out) ''True/False'' = Inr fs \<and> length fs = length out \<and>
           (\<forall>k<length out. \<exists>i. (i = 0 \<or> i = 1) \<and>
               get_field (out ! k) ''correctAnswer'' = Some (JInt i) \<and>
               fq_correctAnswer (fs ! k) = Some (1 - i))"
proof -
  from assms obtain data where "validate_from ''True/False'' 0 data = Inr out"
    by (auto simp: validateAndParseQuizData_def validate_batch_def
             split: sum.splits option.splits json.splits if_splits)
  then have each: "validate_question ''True/False'' k (data ! k) = Inr (out ! k)"
    if "k < length out" for k
    using that by (simp add: validate_from_Inr_iff)
  define fs where "fs = map (\<lambda>q. projr (format_question ''True/False'' q)) out"
  have step: "\<exists>i. (i = 0 \<or> i = 1) \<and> get_field (out ! k) ''correctAnswer'' = Some (JInt i) \<and>
                format_question ''True/False'' (out ! k) = Inr (fs ! k) \<and>
                fq_correctAnswer (fs ! k) = Some (1 - i)"
    if k: "k < length out" for k
  proof -
    from validate_true_false_result [OF each [OF k]] obtain i where
      i: "i = 0 \<or> i = 1" "get_field (out ! k) ''correctAnswer'' = Some (JInt i)" by blast
    from format_true_false_index [OF i(2) i(1)] obtain f where
      "format_question ''True/False'' (out ! k) = Inr f" "fq_correctAnswer f = Some (1 - i)" by blast
    then show ?thesis using i k by (auto simp: fs_def)
  qed
  have "map_err (format_question ''True/False'') out = Inr fs"
    unfolding map_err_Inr_iff using step by (auto simp: fs_def)
  then show ?thesis using step by (auto simp: formatQuizQuestions_def fs_def)
qed

subsection \<open>Multiple-choice and fill-in-the-blank questions\<close>

lemma dropWhile_id_iff: "dropWhile P xs = xs \<longleftrightarrow> xs = [] \<or> \<not> P (hd xs)"
proof (cases xs)
  case Nil
  then show ?thesis by simp
next
  case (Cons a list)
  have "dropWhile P list \<noteq> a # list"
    using length_dropWhile_le [of P list] by (auto dest: arg_cong [where f = length])
  with Cons show ?thesis by auto
qed

lemma js_trim_idem: "js_trim (js_trim s) = js_trim s"
proof -
  define a where "a = dropWhile js_whitespace s"
  define b where "b = rev (dropWhile js_whitespace (rev a))"
  have b: "js_trim s = b" by (simp add: js_trim_def a_def b_def)
  have "suffix (rev b) (rev a)" by (simp add: b_def suffix_dropWhile)
  then have pre: "prefix b a" by (simp add: suffix_to_prefix)
  have front: "dropWhile js_whitespace b = b"
  proof (cases "b = []")
    case True
    then show ?thesis by simp
  next
    case False
    with pre have an: "a \<noteq> []" and hd: "hd b = hd a" by (auto simp: prefix_def)
    from an have "\<not> js_whitespace (hd a)"
      unfolding a_def by (rule hd_dropWhile)
    with hd show ?thesis by (simp add: dropWhile_id_iff)
  qed
  have rear: "dropWhile js_whitespace (rev b) = rev b"
    by (simp add: b_def dropWhile_idem)
  show ?thesis unfolding b by (simp add: js_trim_def front rear)
qed

lemma includes_count_blanks: "js_includes t ''___'' \<Longrightarrow> 0 < count_blanks t"
  by (induction t rule: count_blanks.induct) (auto simp: prefix_Cons)

lemma count_blanks_includes: "0 < count_blanks t \<Longrightarrow> js_includes t ''___''"
  by (induction t rule: count_blanks.induct) (auto simp: prefix_Cons split: if_splits)

lemma validate_answer_index_Inr:
  assumes "validate_answer_index n (JObj kvs) = Inr q2"
  shows "\<exists>s a. js_String_opt (map_of kvs ''correctAnswer'') = Some s \<and> js_parseInt s 10 = Some a \<and>
           0 \<le> a \<and> a \<le> 3 \<and> q2 = JObj (AList.update ''correctAnswer'' (JInt a) kvs)"
  using assms
  by (auto simp: validate_answer_index_def question_msg_def split: option.splits if_splits)

lemma validate_blank_None:
  assumes "validate_blank qt n (JObj kvs) = None" and "qt = ''Fill in the Blanks''"
  shows "\<exists>t. map_of kvs ''question'' = Some (JStr t) \<and> count_blanks t = 1"
proof -
  from assms obtain t where t: "map_of kvs ''question'' = Some (JStr t)"
    "js_includes t ''___''" "\<not> count_blanks t > 1"
    by (auto simp: validate_blank_def question_msg_def split: option.splits json.splits if_splits)
  with includes_count_blanks [of t] have "count_blanks t = 1" by simp
  with t show ?thesis by blast
qed

lemma validate_choice_Inr:
  assumes "validate_choice qt n (JObj kvs) = Inr q2"
  shows "\<exists>opts strs s a.
           map_of kvs ''options'' = Some (JArr opts) \<and> length opts = 4 \<and>
           those (map js_String opts) = Some strs \<and>
           (\<forall>x\<in>set strs. js_trim x \<noteq> []) \<and> distinct (map js_trim strs) \<and>
           js_String_opt (map_of kvs ''correctAnswer'') = Some s \<and> js_parseInt s 10 = Some a \<and>
           0 \<le> a \<and> a \<le> 3 \<and>
           validate_blank qt n (JObj (AList.update ''options'' (JArr (map JStr (map js_trim strs))) kvs)) = None \<and>
           q2 = JObj (AList.update ''correctAnswer'' (JInt a)
                        (AList.update ''options'' (JArr (map JStr (map js_trim strs))) kvs))"
proof -
  from assms obtain opts where opts: "map_of kvs ''options'' = Some (JArr opts)" "length opts = 4"
    by (auto simp: validate_choice_def question_msg_def split: option.splits json.splits if_splits)
  with assms obtain strs where strs: "those (map js_String opts) = Some strs"
    by (auto simp: validate_choice_def question_msg_def split: option.splits)
  let ?os = "map js_trim strs"
  let ?q1 = "JObj (AList.update ''options'' (JArr (map JStr ?os)) kvs)"
  from assms opts strs have c: "\<not> (\<exists>opt \<in> set ?os. opt = [])" "length (remdups ?os) = length ?os"
    "validate_blank qt n ?q1 = None" "validate_answer_index n ?q1 = Inr q2"
    by (auto simp: validate_choice_def question_msg_def Let_def split: option.splits if_splits)
  from c(2) have d: "distinct ?os"
    by (metis length_remdups_eq remdups_id_iff_distinct)
  from validate_answer_index_Inr [OF c(4)] obtain s a where
    "js_String_opt (map_of kvs ''correctAnswer'') = Some s" "js_parseInt s 10 = Some a"
    "0 \<le> a" "a \<le> 3" "q2 = JObj (AList.update ''correctAnswer'' (JInt a)
                        (AList.update ''options'' (JArr (map JStr ?os)) kvs))"
    by (auto simp: update_conv')
  moreover from c(1) have "\<forall>x\<in>set strs. js_trim x \<noteq> []" by force
  ultimately show ?thesis using opts strs c(3) d by simp
qed

lemma those_length: "those xs = Some ys \<Longrightarrow> length ys = length xs"
  by (induction xs arbitrary: ys) (auto split: option.splits)

lemma validate_choice_question:
  assumes qt: "questionType = ''MCQ'' \<or> questionType = ''Fill in the Blanks''"
    and ok: "validate_question questionType index q = Inr q'"
  shows "\<exists>opts strs s a t os.
           get_field q ''options'' = Some (JArr opts) \<and> length opts = 4
         \<and> those (map js_String opts) = Some strs
         \<and> (\<forall>x\<in>set strs. js_trim x \<noteq> []) \<and> distinct (map js_trim strs)
         \<and> js_String_opt (get_field q ''correctAnswer'') = Some s
         \<and> js_parseInt s 10 = Some a \<and> 0 \<le> a \<and> a \<le> 3
         \<and> get_field q ''question'' = Some (JStr t)
         \<and> (questionType = ''Fill in the Blanks'' \<longrightarrow> count_blanks t = 1)
         \<and> get_field q' ''options'' = Some (JArr (map JStr os)) \<and> os = map js_trim strs
         \<and> length os = 4 \<and> (\<forall>x\<in>set os. js_trim x \<noteq> []) \<and> distinct (map js_trim os)
         \<and> get_field q' ''correctAnswer'' = Some (JInt a)"
proof -
  from qt have ntf: "questionType \<noteq> ''True/False''" by auto
  from ok have "\<not> invalid_text (get_field q ''question'')"
    by (auto simp: validate_question_def Let_def split: if_splits)
  then obtain t where t: "get_field q ''question'' = Some (JStr t)"
    by (cases "get_field q ''question''" rule: invalid_text.cases) auto
  then obtain kvs where kvs: "q = JObj kvs" by (auto dest: get_field_SomeD)
  obtain kvs1 where k1: "default_explanation (JObj kvs) = JObj kvs1"
    and same1: "\<forall>k. k \<noteq> ''explanation'' \<longrightarrow> map_of kvs1 k = map_of kvs k"
    using default_explanation_obj by blast
  from ok kvs k1 ntf obtain q2 where
    q2: "validate_choice questionType (index + 1) (JObj kvs1) = Inr q2"
    and q': "q' = ensure_explanation q2"
    by (auto simp: validate_question_def Let_def split: if_splits sum.splits)
  from validate_choice_Inr [OF q2] obtain opts strs s a where c:
    "map_of kvs1 ''options'' = Some (JArr opts)" "length opts = 4"
    "those (map js_String opts) = Some strs"
    "\<forall>x\<in>set strs. js_trim x \<noteq> []" "distinct (map js_trim strs)"
    "js_String_opt (map_of kvs1 ''correctAnswer'') = Some s" "js_parseInt s 10 = Some a"
    "0 \<le> a" "a \<le> 3"
    "validate_blank questionType (index + 1)
       (JObj (AList.update ''options'' (JArr (map JStr (map js_trim strs))) kvs1)) = None"
    "q2 = JObj (AList.update ''correctAnswer'' (JInt a)
                 (AList.update ''options'' (JArr (map JStr (map js_trim strs))) kvs1))"
    by blast
  let ?os = "map js_trim strs"
  have len: "length ?os = 4"
    using c(2) those_length [OF c(3)] by simp
  have blank: "count_blanks t = 1" if "questionType = ''Fill in the Blanks''"
    using validate_blank_None [OF c(10) that] t kvs same1 by (simp add: update_conv')
  obtain kvs3 where k3: "ensure_explanation q2 = JObj kvs3"
    and same3: "\<forall>k. k \<noteq> ''explanation'' \<longrightarrow>
                  map_of kvs3 k = map_of (AList.update ''correctAnswer'' (JInt a)
                    (AList.update ''options'' (JArr (map JStr ?os)) kvs1)) k"
    unfolding c(11) using ensure_explanation_obj by blast
  have out_opts: "get_field q' ''options'' = Some (JArr (map JStr ?os))"
    using q' k3 same3 by (simp add: update_conv')
  have out_ans: "get_field q' ''correctAnswer'' = Some (JInt a)"
    using q' k3 same3 by (simp add: update_conv')
  have in_opts: "get_field q ''options'' = Some (JArr opts)"
    and in_ans: "js_String_opt (get_field q ''correctAnswer'') = Some s"
    using c(1,6) kvs same1 by simp_all
  have trimmed: "\<forall>x\<in>set ?os. js_trim x \<noteq> []" "distinct (map js_trim ?os)"
    using c(4,5) by (simp_all add: js_trim_idem comp_def)
  show ?thesis
    using in_opts c(2,3,4,5) in_ans c(7,8,9) t blank out_opts len trimmed out_ans
    by blast
qed

text \<open>
  Claim C4.  When the normalizer accepts a batch of MCQ or Fill in the Blanks questions,
  then for every question of the batch: the submitted \<^verbatim>\<open>options\<close> field is an array of
  exactly four entries, each with a string form that is not empty after trimming, the four
  trimmed strings pairwise distinct (the size of their set is their number); the submitted
  answer has a string form that \<^verbatim>\<open>parseInt(_, 10)\<close> reads as an integer between 0 and 3;
  and for Fill in the Blanks the prompt holds exactly one match of \<^verbatim>\<open>___\<close>.  A question
  missing any of this is therefore rejected, and the batch with it.  The canonical question
  carries the four trimmed options and that integer as its answer.
\<close>

theorem choice_question_normalization:
  assumes qt: "questionType = ''MCQ'' \<or> questionType = ''Fill in the Blanks''"
    and ok: "validateAndParseQuizData numQuestions questionType (Some (JArr data)) = (logged, Some out)"
    and k: "k < length data"
  shows "\<exists>opts strs s a t os.
           get_field (data ! k) ''options'' = Some (JArr opts) \<and> length opts = 4
         \<and> those (map js_String opts) = Some strs
         \<and> (\<forall>x\<in>set strs. js_trim x \<noteq> []) \<and> distinct (map js_trim strs)
         \<and> js_String_opt (get_field (data ! k) ''correctAnswer'') = Some s
         \<and> js_parseInt s 10 = Some a \<and> 0 \<le> a \<and> a \<le> 3
         \<and> get_field (data ! k) ''question'' = Some (JStr t)
         \<and> (questionType = ''Fill in the Blanks'' \<longrightarrow> count_blanks t = 1)
         \<and> get_field (out ! k) ''options'' = Some (JArr (map JStr os)) \<and> os = map js_trim strs
         \<and> length os = 4 \<and> (\<forall>x\<in>set os. js_trim x \<noteq> []) \<and> distinct (map js_trim os)
         \<and> get_field (out ! k) ''correctAnswer'' = Some (JInt a)"
proof -
  from ok have "validate_from questionType 0 data = Inr out"
    by (auto simp: validateAndParseQuizData_def validate_batch_def split: sum.splits if_splits)
  with k have "validate_question questionType k (data ! k) = Inr (out ! k)"
    by (simp add: validate_from_Inr_iff)
  from validate_choice_question [OF qt this] show ?thesis .
qed

text \<open>
  The example of the generation prompt, with one option padded by spaces and the answer
  given as the string \<^verbatim>\<open>"1"\<close>.
\<close>

theorem choice_question_normalization_witness:
  "(''Fill in the Blanks'' = ''MCQ'' \<or> ''Fill in the Blanks'' = ''Fill in the Blanks'')
   \<and> validateAndParseQuizData 1 ''Fill in the Blanks''
        (Some (JArr [JObj [(''question'', JStr ''The capital of France is ___''),
               (''options'', JArr [JStr ''London'', JStr '' Paris '', JStr ''Berlin'', JStr ''Madrid'']),
               (''correctAnswer'', JStr ''1''),
               (''explanation'', JStr ''Paris is the capital of France'')]]))
      = (None, Some [JObj [(''question'', JStr ''The capital of France is ___''),
               (''options'', JArr [JStr ''London'', JStr ''Paris'', JStr ''Berlin'', JStr ''Madrid'']),
               (''correctAnswer'', JInt 1),
               (''explanation'', JStr ''Paris is the capital of France'')]])
   \<and> (0::nat) < length [JObj [(''question'', JStr ''The capital of France is ___''),
               (''options'', JArr [JStr ''London'', JStr '' Paris '', JStr ''Berlin'', JStr ''Madrid'']),
               (''correctAnswer'', JStr ''1''),
               (''explanation'', JStr ''Paris is the capital of France'')]]
   \<and> (\<exists>os a. get_field (JObj [(''question'', JStr ''The capital of France is ___''),
               (''options'', JArr [JStr ''London'', JStr ''Paris'', JStr ''Berlin'', JStr ''Madrid'']),
               (''correctAnswer'', JInt 1),
               (''explanation'', JStr ''Paris is the capital of France'')]) ''options''
              = Some (JArr (map JStr os))
          \<and> length os = 4 \<and> (\<forall>x\<in>set os. js_trim x \<noteq> []) \<and> distinct (map js_trim os)
          \<and> get_field (JObj [(''question'', JStr ''The capital of France is ___''),
               (''options'', JArr [JStr ''London'', JStr ''Paris'', JStr ''Berlin'', JStr ''Madrid'']),
               (''correctAnswer'', JInt 1),
               (''explanation'', JStr ''Paris is the capital of France'')]) ''correctAnswer''
              = Some (JInt a) \<and> 0 \<le> a \<and> a \<le> 3)"
proof -
  let ?q = "JObj [(''question'', JStr ''The capital of France is ___''),
               (''options'', JArr [JStr ''London'', JStr '' Paris '', JStr ''Berlin'', JStr ''Madrid'']),
               (''correctAnswer'', JStr ''1''),
               (''explanation'', JStr ''Paris is the capital of France'')]"
  let ?q' = "JObj [(''question'', JStr ''The capital of France is ___''),
               (''options'', JArr [JStr ''London'', JStr ''Paris'', JStr ''Berlin'', JStr ''Madrid'']),
               (''correctAnswer'', JInt 1),
               (''explanation'', JStr ''Paris is the capital of France'')]"
  have h1: "''Fill in the Blanks'' = ''MCQ'' \<or> ''Fill in the Blanks'' = ''Fill in the Blanks''"
    by simp
  have h2: "validateAndParseQuizData 1 ''Fill in the Blanks'' (Some (JArr [?q])) = (None, Some [?q'])"
    by code_simp
  have h3: "(0::nat) < length [?q]" by simp
  from choice_question_normalization [OF h1 h2 h3] h1 h2 h3 show ?thesis
    by (simp only: nth_Cons_0) blast
qed

subsection \<open>Failing batches\<close>





section \<open>Properties of the server\<close>

subsection \<open>Statistics\<close>





subsection \<open>The list of quizzes\<close>










text \<open>
  Beyond \<open>2^53\<close> the handler computes with rounded numbers.  A page of twenty digits
  makes an offset that PostgreSQL cannot read as a \<^verbatim>\<open>bigint\<close>: the answer is a 500,
  whatever the database holds.  The page \<open>2^53 + 1\<close> is no double: \<^verbatim>\<open>parseInt\<close> returns
  \<open>2^53\<close>, and that is the page the answer names.
\<close>

lemma parse_large:
  "js_parseInt ''10000000000000000000'' 0 = Some 10000000000000000000"
  "js_parseInt ''9007199254740993'' 0 = Some 9007199254740993"
  "js_parseInt ''10'' 0 = Some 10"
  "js_parseInt ''1'' 0 = Some 1"
  unfolding js_parseInt_def radix_value_def digit_of_def Let_def
  by (simp_all add: js_whitespace_def)

lemma round_large:
  "to_double 10000000000000000000 = Num 10000000000000000000"
  "to_double 9999999999999999999 = Num 10000000000000000000"
  "to_double 100000000000000000000 = Num 100000000000000000000"
  "to_double 9007199254740993 = Num 9007199254740992"
  "to_double 9007199254740991 = Num 9007199254740991"
  "to_double 10 = Num 10"
  "to_double 1 = Num 1"
  unfolding to_double_def Let_def
  by (simp_all add: bit_length.simps)

lemma list_quizzes_beyond_bigint:
  "listQuizzes e d userId (Some ''10000000000000000000'') (Some ''10'') = server_error"
  by (simp add: listQuizzes_def query_int_def parse_large round_large number_times_def
        select_quizzes_def pg_bigint_def Let_def)

lemma list_quizzes_rounded_page:
  assumes "\<not> fails e (SELECT 0)" "\<not> fails e (SELECT 1)"
  shows "get_field (body (listQuizzes e d userId (Some ''9007199254740993'') (Some ''1'')))
           ''pagination''
         = Some (JObj
             [(''currentPage'', JInt 9007199254740992),
              (''totalPages'',
                 JInt (int (length (filter (\<lambda>q. qz_user_id q = userId) (quizzes d))))),
              (''totalQuizzes'',
                 JInt (int (length (filter (\<lambda>q. qz_user_id q = userId) (quizzes d))))),
              (''hasMore'',
                 JBool (9007199254740992
                          < int (length (filter (\<lambda>q. qz_user_id q = userId) (quizzes d)))))])"
  using assms
  by (simp add: listQuizzes_def query_int_def parse_large round_large number_times_def
        select_quizzes_def count_quizzes_def pg_bigint_def ceil_div_def Let_def)

subsection \<open>Creating a quiz\<close>

lemma those_map_Some_iff:
  "those (map f xs) = Some ys \<longleftrightarrow>
     length ys = length xs \<and> (\<forall>k<length xs. f (xs ! k) = Some (ys ! k))"
proof (induction xs arbitrary: ys)
  case Nil
  then show ?case by auto
next
  case (Cons x xs)
  show ?case
  proof (cases ys)
    case Nil
    then show ?thesis by (auto split: option.splits)
  next
    case c: (Cons y ys')
    have "those (map f (x # xs)) = Some (y # ys') \<longleftrightarrow> f x = Some y \<and> those (map f xs) = Some ys'"
      by (auto split: option.splits)
    also have "\<dots> \<longleftrightarrow> f x = Some y \<and> length ys' = length xs \<and>
                 (\<forall>k<length xs. f (xs ! k) = Some (ys' ! k))"
      using Cons.IH [of ys'] by simp
    also have "\<dots> \<longleftrightarrow> length (y # ys') = length (x # xs) \<and>
                 (\<forall>k<length (x # xs). f ((x # xs) ! k) = Some ((y # ys') ! k))"
      by (simp add: All_less_Suc2 conj_ac)
    finally show ?thesis using c by simp
  qed
qed

lemma joi_string_SomeD: "joi_string v = Some s \<Longrightarrow> v = JStr s \<and> s \<noteq> []"
  by (auto simp: joi_string_def split: json.splits if_splits)

lemma those_joi_string: "those (map joi_string xs) = Some os \<Longrightarrow> xs = map JStr os"
  by (auto simp: those_map_Some_iff list_eq_iff_nth_eq dest!: joi_string_SomeD)

lemma joi_options_SomeD:
  "joi_options v = Some os \<Longrightarrow> v = JArr (map JStr os) \<and> 2 \<le> length os"
  by (auto simp: joi_options_def split: json.splits option.splits if_splits dest: those_joi_string)

lemma joi_correctAnswer_SomeD: "joi_correctAnswer v = Some a \<Longrightarrow> a = v"
  by (auto simp: joi_correctAnswer_def split: json.splits if_splits)

lemma joi_explanation_SomeD: "joi_explanation v = Some x \<Longrightarrow> x = v"
  by (auto simp: joi_explanation_def split: json.splits option.splits)

lemma question_item_SomeD:
  assumes "question_item q = Some sq"
  shows "\<exists>kvs. q = JObj kvs \<and> map_of kvs ''question'' = Some (JStr (sq_question sq)) \<and>
           map_of kvs ''correctAnswer'' = Some (sq_correctAnswer sq) \<and>
           map_of kvs ''explanation'' = sq_explanation sq \<and>
           map_of kvs ''options'' = Some (JArr (map JStr (sq_options sq))) \<and>
           2 \<le> length (sq_options sq)"
proof -
  from assms obtain kvs where kvs: "q = JObj kvs"
    by (auto simp: question_item_def split: json.splits)
  from assms kvs obtain t a x os where
    r: "required kvs ''question'' joi_string = Some t"
       "required kvs ''correctAnswer'' joi_correctAnswer = Some a"
       "joi_explanation (map_of kvs ''explanation'') = Some x"
       "required kvs ''options'' joi_options = Some os"
    and sq: "sq = \<lparr> sq_question = t, sq_correctAnswer = a, sq_explanation = x, sq_options = os \<rparr>"
    by (auto simp: question_item_def split: option.splits)
  from r(1) have "map_of kvs ''question'' = Some (JStr t)"
    by (auto simp: required_def split: option.splits dest: joi_string_SomeD)
  moreover from r(2) have "map_of kvs ''correctAnswer'' = Some a"
    by (auto simp: required_def split: option.splits dest: joi_correctAnswer_SomeD)
  moreover from r(3) have "map_of kvs ''explanation'' = x"
    by (auto dest: joi_explanation_SomeD)
  moreover from r(4) have "map_of kvs ''options'' = Some (JArr (map JStr os))" "2 \<le> length os"
    by (auto simp: required_def split: option.splits dest: joi_options_SomeD)
  ultimately show ?thesis using kvs sq by simp
qed

lemma joi_integer_SomeD: "joi_integer toNumber lo x = Some n \<Longrightarrow> joi_number toNumber x = Some (JInt n)"
  by (auto simp: joi_integer_def split: option.splits json.splits if_splits)

lemma quizSchema_SomeD:
  assumes "quizSchema toNumber b = Some v"
  shows "\<exists>kvs x qs. b = JObj kvs \<and> map_of kvs ''numQuestions'' = Some x \<and>
           joi_number toNumber x = Some (JInt (qv_numQuestions v)) \<and>
           map_of kvs ''questions'' = Some (JArr qs) \<and>
           those (map question_item qs) = Some (qv_questions v)"
proof -
  from assms obtain kvs where kvs: "b = JObj kvs"
    by (auto simp: quizSchema_def split: json.splits)
  from assms kvs obtain n qs where
    r: "required kvs ''numQuestions'' (joi_integer toNumber (Some 1)) = Some n"
       "required kvs ''questions'' joi_questions = Some qs"
    and v: "qv_numQuestions v = n" "qv_questions v = qs"
    by (auto simp: quizSchema_def split: option.splits)
  from r(1) obtain x where "map_of kvs ''numQuestions'' = Some x"
    "joi_number toNumber x = Some (JInt n)"
    by (auto simp: required_def split: option.splits dest: joi_integer_SomeD)
  moreover from r(2) obtain xs where "map_of kvs ''questions'' = Some (JArr xs)"
    "those (map question_item xs) = Some qs"
    by (auto simp: required_def joi_questions_def split: option.splits json.splits if_splits)
  ultimately show ?thesis using kvs v by auto
qed

lemma createQuiz_cases:
  assumes "createQuiz toNumber e d userId reqBody = (resp, d')"
  shows "(status resp = 400 \<and> d' = d) \<or>
         (\<exists>v. quizSchema toNumber
                 (if \<not> js_truthy (get_field reqBody ''language'')
                  then set_field reqBody ''language'' (JStr ''english'') else reqBody) = Some v \<and>
               qv_numQuestions v = int (length (qv_questions v)) \<and>
               ((status resp = 500 \<and> d' = d) \<or>
                (status resp = 201 \<and> (\<exists>row. insert_quiz e d userId v = Some (row, d')))))"
  using assms
  by (auto simp: createQuiz_def Let_def validation_error_def validation_error_msg_def
        server_error_def split: option.splits if_splits prod.splits)

lemma language_default_fields:
  assumes "(if \<not> js_truthy (get_field reqBody ''language'')
            then set_field reqBody ''language'' (JStr ''english'') else reqBody) = JObj kvs"
    and "k \<noteq> ''language''"
  shows "get_field reqBody k = map_of kvs k"
  using assms by (cases reqBody) (auto simp: update_conv' split: if_splits)

text \<open>
  Claim C7.  \<^verbatim>\<open>POST /api/quizzes\<close> answers 400 and leaves the database as it was
  whenever the declared \<^verbatim>\<open>numQuestions\<close>, as Joi reads it, is not the length of the
  submitted \<^verbatim>\<open>questions\<close> array, or whenever some submitted question has no
  \<^verbatim>\<open>options\<close> array of at least two entries.  The schema demands the two options of
  every question, whatever the question type, so in particular of MCQ and Fill in the
  Blanks questions.
\<close>

theorem create_quiz_rejects:
  assumes run: "createQuiz toNumber e d userId reqBody = (resp, d')"
    and bad: "(\<forall>x n qs. get_field reqBody ''numQuestions'' = Some x \<longrightarrow>
                  joi_number toNumber x = Some (JInt n) \<longrightarrow>
                  get_field reqBody ''questions'' = Some (JArr qs) \<longrightarrow> n \<noteq> int (length qs))
              \<or> (\<exists>qs q. get_field reqBody ''questions'' = Some (JArr qs) \<and> q \<in> set qs \<and>
                    (\<forall>opts. get_field q ''options'' = Some (JArr opts) \<longrightarrow> length opts < 2))"
  shows "status resp = 400 \<and> d' = d"
proof (rule ccontr)
  assume "\<not> (status resp = 400 \<and> d' = d)"
  with createQuiz_cases [OF run] obtain v where
    v: "quizSchema toNumber
          (if \<not> js_truthy (get_field reqBody ''language'')
           then set_field reqBody ''language'' (JStr ''english'') else reqBody) = Some v"
    and n: "qv_numQuestions v = int (length (qv_questions v))"
    by blast
  from quizSchema_SomeD [OF v] obtain kvs x qs where
    b: "(if \<not> js_truthy (get_field reqBody ''language'')
         then set_field reqBody ''language'' (JStr ''english'') else reqBody) = JObj kvs"
    and x: "map_of kvs ''numQuestions'' = Some x"
       "joi_number toNumber x = Some (JInt (qv_numQuestions v))"
    and qs: "map_of kvs ''questions'' = Some (JArr qs)"
       "those (map question_item qs) = Some (qv_questions v)"
    by blast
  have fx: "get_field reqBody ''numQuestions'' = Some x"
    using language_default_fields [OF b, of "''numQuestions''"] x(1) by simp
  have fq: "get_field reqBody ''questions'' = Some (JArr qs)"
    using language_default_fields [OF b, of "''questions''"] qs(1) by simp
  from qs(2) have len: "length (qv_questions v) = length qs"
    and items: "\<forall>k<length qs. question_item (qs ! k) = Some (qv_questions v ! k)"
    by (simp_all add: those_map_Some_iff)
  from bad show False
  proof
    assume "\<forall>x n qs. get_field reqBody ''numQuestions'' = Some x \<longrightarrow>
                  joi_number toNumber x = Some (JInt n) \<longrightarrow>
                  get_field reqBody ''questions'' = Some (JArr qs) \<longrightarrow> n \<noteq> int (length qs)"
    with fx x(2) fq have "qv_numQuestions v \<noteq> int (length qs)" by blast
    with n len show False by simp
  next
    assume "\<exists>qs q. get_field reqBody ''questions'' = Some (JArr qs) \<and> q \<in> set qs \<and>
                    (\<forall>opts. get_field q ''options'' = Some (JArr opts) \<longrightarrow> length opts < 2)"
    with fq obtain q where q: "q \<in> set qs"
      "\<forall>opts. get_field q ''options'' = Some (JArr opts) \<longrightarrow> length opts < 2" by auto
    from q(1) obtain k where k: "k < length qs" "q = qs ! k" by (auto simp: in_set_conv_nth)
    with items have "question_item q = Some (qv_questions v ! k)" by simp
    from question_item_SomeD [OF this] q(2) show False by fastforce
  qed
qed

text \<open>Three questions declared, two submitted.\<close>

theorem create_quiz_rejects_witness:
  "createQuiz (\<lambda>s. None) \<lparr> now = 50, next_id = 1, fails = (\<lambda>s. False) \<rparr>
         \<lparr> quizzes = [], quiz_results = [], quiz_history = [] \<rparr> ''alice''
         (JObj [(''title'', JStr ''Geography Quiz''), (''topic'', JStr ''Geography''),
                (''numQuestions'', JInt 3), (''difficulty'', JStr ''Easy''),
                (''questionType'', JStr ''True/False''), (''language'', JStr ''english''),
                (''questions'', JArr [JObj [(''question'', JStr ''The Earth is flat.''),
                                            (''explanation'', JStr []),
                                            (''correctAnswer'', JInt 1),
                                            (''options'', JArr [JStr ''True'', JStr ''False''])],
                                      JObj [(''question'', JStr ''Water is wet.''),
                                            (''explanation'', JStr ''It is.''),
                                            (''correctAnswer'', JInt 0),
                                            (''options'', JArr [JStr ''True'', JStr ''False''])]])])
   = (\<lparr> status = 400,
         body = JObj [(''status'', JStr ''error''), (''type'', JStr ''validation''),
                      (''message'', JStr ''numQuestions (3) does not match actual number of questions (2)'')] \<rparr>,
      \<lparr> quizzes = [], quiz_results = [], quiz_history = [] \<rparr>)
   \<and> status \<lparr> status = 400,
         body = JObj [(''status'', JStr ''error''), (''type'', JStr ''validation''),
                      (''message'', JStr ''numQuestions (3) does not match actual number of questions (2)'')] \<rparr> = 400"
proof -
  let ?e = "\<lparr> now = 50, next_id = 1, fails = (\<lambda>s. False) \<rparr>"
  let ?d = "\<lparr> quizzes = [], quiz_results = [], quiz_history = [] \<rparr>"
  let ?b = "JObj [(''title'', JStr ''Geography Quiz''), (''topic'', JStr ''Geography''),
                (''numQuestions'', JInt 3), (''difficulty'', JStr ''Easy''),
                (''questionType'', JStr ''True/False''), (''language'', JStr ''english''),
                (''questions'', JArr [JObj [(''question'', JStr ''The Earth is flat.''),
                                            (''explanation'', JStr []),
                                            (''correctAnswer'', JInt 1),
                                            (''options'', JArr [JStr ''True'', JStr ''False''])],
                                      JObj [(''question'', JStr ''Water is wet.''),
                                            (''explanation'', JStr ''It is.''),
                                            (''correctAnswer'', JInt 0),
                                            (''options'', JArr [JStr ''True'', JStr ''False''])]])]"
  let ?r = "\<lparr> status = 400,
         body = JObj [(''status'', JStr ''error''), (''type'', JStr ''validation''),
                      (''message'', JStr ''numQuestions (3) does not match actual number of questions (2)'')] \<rparr>"
  have run: "createQuiz (\<lambda>s. None) ?e ?d ''alice'' ?b = (?r, ?d)"
    by code_simp
  have bad: "(\<forall>x n qs. get_field ?b ''numQuestions'' = Some x \<longrightarrow>
                  joi_number (\<lambda>s. None) x = Some (JInt n) \<longrightarrow>
                  get_field ?b ''questions'' = Some (JArr qs) \<longrightarrow> n \<noteq> int (length qs))
              \<or> (\<exists>qs q. get_field ?b ''questions'' = Some (JArr qs) \<and> q \<in> set qs \<and>
                    (\<forall>opts. get_field q ''options'' = Some (JArr opts) \<longrightarrow> length opts < 2))"
    by (auto simp: joi_number_def)
  from create_quiz_rejects [OF run bad] run show ?thesis by simp
qed

lemma createQuiz_created:
  assumes "createQuiz toNumber e d userId reqBody = (resp, d')" and "status resp = 201"
  shows "\<exists>v row. quizSchema toNumber
                 (if \<not> js_truthy (get_field reqBody ''language'')
                  then set_field reqBody ''language'' (JStr ''english'') else reqBody) = Some v \<and>
           insert_quiz e d userId v = Some (row, d') \<and>
           qv_numQuestions v = int (length (qv_questions v)) \<and>
           Option.bind (get_field (body resp) ''quiz'') (\<lambda>q. get_field q ''id'') = Some (JInt (qz_id row))"
  using assms
  by (auto simp: createQuiz_def Let_def validation_error_def validation_error_msg_def
        server_error_def split: option.splits if_splits prod.splits)

lemma insert_quiz_SomeD:
  assumes "insert_quiz e d userId v = Some (row, d')"
  shows "qz_id row = next_id e" "qz_user_id row = userId" "qz_questions row = qv_questions v"
    "d' = d \<lparr> quizzes := quizzes d @ [row] \<rparr>" "next_id e \<notin> set (map qz_id (quizzes d))"
  using assms by (auto simp: insert_quiz_def Let_def split: if_splits)

lemma detail_of_created:
  assumes id: "qz_id row = qid" and user: "qz_user_id row = userId"
    and fresh: "qid \<notin> set (map qz_id (quizzes d))"
    and ok: "\<not> fails e' CONNECT" "\<not> fails e' (SELECT 0)"
  shows "\<exists>r. getQuizDetail e' (d \<lparr> quizzes := quizzes d @ [row] \<rparr>) userId (Some qid) = Some r \<and>
           status r = 200 \<and>
           Option.bind (get_field (body r) ''quiz'') (\<lambda>q. get_field q ''questions'')
             = Some (JArr (map detail_question (qz_questions row)))"
proof -
  from fresh have "filter (\<lambda>q. qz_id q = qid \<and> qz_user_id q = userId) (quizzes d) = []"
    by (auto simp: filter_empty_conv)
  then have "filter (\<lambda>q. qz_id q = qid \<and> qz_user_id q = userId) (quizzes d @ [row]) = [row]"
    using id user by simp
  then show ?thesis using ok by (simp add: getQuizDetail_def Let_def)
qed

lemma detail_question_fields:
  assumes "question_item q = Some sq"
  shows "get_field (detail_question sq) ''question'' = get_field q ''question''"
    and "get_field (detail_question sq) ''options'' = get_field q ''options''"
    and "get_field (detail_question sq) ''correctAnswer'' = get_field q ''correctAnswer''"
    and "get_field (detail_question sq) ''explanation'' =
           Some (case get_field q ''explanation'' of
                   Some x \<Rightarrow> if js_truthy (Some x) then x else JStr ''No explanation provided''
                 | None \<Rightarrow> JStr ''No explanation provided'')"
  using question_item_SomeD [OF assms]
  by (auto simp: detail_question_def split: option.splits)

text \<open>
  Claim C6, as the code has it.  When \<^verbatim>\<open>POST /api/quizzes\<close> answers 201, the id in
  its answer is the new quiz's, and \<^verbatim>\<open>GET /api/quizzes/:id\<close> by the same owner (when no
  statement fails) returns as many questions as were submitted, in the same order, each with
  the submitted question text, options and correct answer.  The explanation comes back as
  submitted when it is a string that is not empty; an empty, \<^verbatim>\<open>null\<close> or missing
  explanation comes back as the text \<^verbatim>\<open>No explanation provided\<close>.
\<close>

theorem create_then_detail_round_trip:
  assumes create: "createQuiz toNumber e d userId reqBody = (resp, d')"
    and created: "status resp = 201"
    and ok: "\<not> fails e' CONNECT" "\<not> fails e' (SELECT 0)"
  shows "\<exists>qs rqs r.
           get_field reqBody ''questions'' = Some (JArr qs)
         \<and> Option.bind (get_field (body resp) ''quiz'') (\<lambda>q. get_field q ''id'') = Some (JInt (next_id e))
         \<and> getQuizDetail e' d' userId (Some (next_id e)) = Some r \<and> status r = 200
         \<and> Option.bind (get_field (body r) ''quiz'') (\<lambda>q. get_field q ''questions'') = Some (JArr rqs)
         \<and> length rqs = length qs
         \<and> (\<forall>k<length qs.
               get_field (rqs ! k) ''question'' = get_field (qs ! k) ''question''
             \<and> get_field (rqs ! k) ''options'' = get_field (qs ! k) ''options''
             \<and> get_field (rqs ! k) ''correctAnswer'' = get_field (qs ! k) ''correctAnswer''
             \<and> get_field (rqs ! k) ''explanation'' =
                 Some (case get_field (qs ! k) ''explanation'' of
                         Some x \<Rightarrow> if js_truthy (Some x) then x else JStr ''No explanation provided''
                       | None \<Rightarrow> JStr ''No explanation provided''))"
proof -
  from createQuiz_created [OF create created] obtain v row where
    v: "quizSchema toNumber
          (if \<not> js_truthy (get_field reqBody ''language'')
           then set_field reqBody ''language'' (JStr ''english'') else reqBody) = Some v"
    and ins: "insert_quiz e d userId v = Some (row, d')"
    and rid: "Option.bind (get_field (body resp) ''quiz'') (\<lambda>q. get_field q ''id'') = Some (JInt (qz_id row))"
    by blast
  note i = insert_quiz_SomeD [OF ins]
  from quizSchema_SomeD [OF v] obtain kvs qs where
    b: "(if \<not> js_truthy (get_field reqBody ''language'')
         then set_field reqBody ''language'' (JStr ''english'') else reqBody) = JObj kvs"
    and qs: "map_of kvs ''questions'' = Some (JArr qs)"
       "those (map question_item qs) = Some (qv_questions v)"
    by blast
  have fq: "get_field reqBody ''questions'' = Some (JArr qs)"
    using language_default_fields [OF b, of "''questions''"] qs(1) by simp
  from qs(2) have len: "length (qv_questions v) = length qs"
    and items: "\<forall>k<length qs. question_item (qs ! k) = Some (qv_questions v ! k)"
    by (simp_all add: those_map_Some_iff)
  from detail_of_created [OF i(1) i(2) i(5) ok] obtain r where
    r: "getQuizDetail e' d' userId (Some (next_id e)) = Some r" "status r = 200"
       "Option.bind (get_field (body r) ''quiz'') (\<lambda>q. get_field q ''questions'')
          = Some (JArr (map detail_question (qv_questions v)))"
    unfolding i(4) i(3) by blast
  let ?rqs = "map detail_question (qv_questions v)"
  have "\<forall>k<length qs.
               get_field (?rqs ! k) ''question'' = get_field (qs ! k) ''question''
             \<and> get_field (?rqs ! k) ''options'' = get_field (qs ! k) ''options''
             \<and> get_field (?rqs ! k) ''correctAnswer'' = get_field (qs ! k) ''correctAnswer''
             \<and> get_field (?rqs ! k) ''explanation'' =
                 Some (case get_field (qs ! k) ''explanation'' of
                         Some x \<Rightarrow> if js_truthy (Some x) then x else JStr ''No explanation provided''
                       | None \<Rightarrow> JStr ''No explanation provided'')"
  proof (intro allI impI)
    fix k assume k: "k < length qs"
    with items have "question_item (qs ! k) = Some (qv_questions v ! k)" by simp
    from detail_question_fields [OF this] k len
    show "get_field (?rqs ! k) ''question'' = get_field (qs ! k) ''question''
             \<and> get_field (?rqs ! k) ''options'' = get_field (qs ! k) ''options''
             \<and> get_field (?rqs ! k) ''correctAnswer'' = get_field (qs ! k) ''correctAnswer''
             \<and> get_field (?rqs ! k) ''explanation'' =
                 Some (case get_field (qs ! k) ''explanation'' of
                         Some x \<Rightarrow> if js_truthy (Some x) then x else JStr ''No explanation provided''
                       | None \<Rightarrow> JStr ''No explanation provided'')"
      by simp
  qed
  moreover have "length ?rqs = length qs" using len by simp
  ultimately show ?thesis using fq rid i(1) r by (intro exI [of _ qs] exI [of _ ?rqs] exI [of _ r]) simp
qed

text \<open>One question with an explanation: everything comes back as it was sent.\<close>

theorem create_then_detail_round_trip_witness:
  "createQuiz (\<lambda>s. None) \<lparr> now = 50, next_id = 1, fails = (\<lambda>s. False) \<rparr>
         \<lparr> quizzes = [], quiz_results = [], quiz_history = [] \<rparr> ''alice''
         (JObj [(''title'', JStr ''Geography Quiz''), (''topic'', JStr ''Geography''),
                (''numQuestions'', JInt 1), (''difficulty'', JStr ''Easy''),
                (''questionType'', JStr ''MCQ''), (''language'', JStr ''english''),
                (''questions'', JArr [JObj [(''question'', JStr ''What is the capital of France?''),
                                            (''explanation'', JStr ''Paris is the capital of France''),
                                            (''correctAnswer'', JInt 1),
                                            (''options'', JArr [JStr ''London'', JStr ''Paris'',
                                                                JStr ''Berlin'', JStr ''Madrid''])]])])
   = (\<lparr> status = 201,
         body = JObj
           [(''status'', JStr ''success''),
            (''message'', JStr ''Quiz created successfully''),
            (''quiz'', JObj
               [(''id'', JInt 1), (''title'', JStr ''Geography Quiz''),
                (''topic'', JStr ''Geography''), (''numQuestions'', JInt 1),
                (''difficulty'', JStr ''Easy''), (''questionType'', JStr ''MCQ''),
                (''language'', JStr ''english'')])] \<rparr>,
      \<lparr> quizzes =
          [\<lparr> qz_id = 1, qz_user_id = ''alice'', qz_title = ''Geography Quiz'',
             qz_topic = Some ''Geography'', qz_num_questions = 1, qz_difficulty = ''Easy'',
             qz_question_type = ''MCQ'', qz_language = ''english'',
             qz_questions =
               [\<lparr> sq_question = ''What is the capital of France?'', sq_correctAnswer = JInt 1,
                  sq_explanation = Some (JStr ''Paris is the capital of France''),
                  sq_options = [''London'', ''Paris'', ''Berlin'', ''Madrid''] \<rparr>],
             qz_created_at = 50, qz_updated_at = 50 \<rparr>],
        quiz_results = [], quiz_history = [] \<rparr>)
   \<and> (\<exists>rqs r.
         getQuizDetail \<lparr> now = 60, next_id = 1, fails = (\<lambda>s. False) \<rparr>
           \<lparr> quizzes =
              [\<lparr> qz_id = 1, qz_user_id = ''alice'', qz_title = ''Geography Quiz'',
                 qz_topic = Some ''Geography'', qz_num_questions = 1, qz_difficulty = ''Easy'',
                 qz_question_type = ''MCQ'', qz_language = ''english'',
                 qz_questions =
                   [\<lparr> sq_question = ''What is the capital of France?'', sq_correctAnswer = JInt 1,
                      sq_explanation = Some (JStr ''Paris is the capital of France''),
                      sq_options = [''London'', ''Paris'', ''Berlin'', ''Madrid''] \<rparr>],
                 qz_created_at = 50, qz_updated_at = 50 \<rparr>],
            quiz_results = [], quiz_history = [] \<rparr> ''alice'' (Some 1) = Some r
       \<and> status r = 200
       \<and> Option.bind (get_field (body r) ''quiz'') (\<lambda>q. get_field q ''questions'') = Some (JArr rqs)
       \<and> length rqs = 1
       \<and> get_field (rqs ! 0) ''options''
            = Some (JArr [JStr ''London'', JStr ''Paris'', JStr ''Berlin'', JStr ''Madrid''])
       \<and> get_field (rqs ! 0) ''correctAnswer'' = Some (JInt 1)
       \<and> get_field (rqs ! 0) ''explanation'' = Some (JStr ''Paris is the capital of France''))"
proof -
  let ?e = "\<lparr> now = 50, next_id = 1, fails = (\<lambda>s. False) \<rparr>"
  let ?e' = "\<lparr> now = 60, next_id = 1, fails = (\<lambda>s. False) \<rparr>"
  let ?d = "\<lparr> quizzes = [], quiz_results = [], quiz_history = [] \<rparr>"
  let ?q = "JObj [(''question'', JStr ''What is the capital of France?''),
                  (''explanation'', JStr ''Paris is the capital of France''),
                  (''correctAnswer'', JInt 1),
                  (''options'', JArr [JStr ''London'', JStr ''Paris'', JStr ''Berlin'', JStr ''Madrid''])]"
  let ?b = "JObj [(''title'', JStr ''Geography Quiz''), (''topic'', JStr ''Geography''),
                (''numQuestions'', JInt 1), (''difficulty'', JStr ''Easy''),
                (''questionType'', JStr ''MCQ''), (''language'', JStr ''english''),
                (''questions'', JArr [?q])]"
  let ?resp = "\<lparr> status = 201,
         body = JObj
           [(''status'', JStr ''success''),
            (''message'', JStr ''Quiz created successfully''),
            (''quiz'', JObj
               [(''id'', JInt 1), (''title'', JStr ''Geography Quiz''),
                (''topic'', JStr ''Geography''), (''numQuestions'', JInt 1),
                (''difficulty'', JStr ''Easy''), (''questionType'', JStr ''MCQ''),
                (''language'', JStr ''english'')])] \<rparr>"
  let ?d' = "\<lparr> quizzes =
          [\<lparr> qz_id = 1, qz_user_id = ''alice'', qz_title = ''Geography Quiz'',
             qz_topic = Some ''Geography'', qz_num_questions = 1, qz_difficulty = ''Easy'',
             qz_question_type = ''MCQ'', qz_language = ''english'',
             qz_questions =
               [\<lparr> sq_question = ''What is the capital of France?'', sq_correctAnswer = JInt 1,
                  sq_explanation = Some (JStr ''Paris is the capital of France''),
                  sq_options = [''London'', ''Paris'', ''Berlin'', ''Madrid''] \<rparr>],
             qz_created_at = 50, qz_updated_at = 50 \<rparr>],
        quiz_results = [], quiz_history = [] \<rparr>"
  have run: "createQuiz (\<lambda>s. None) ?e ?d ''alice'' ?b = (?resp, ?d')"
    by code_simp
  have st: "status ?resp = 201" by simp
  have f: "\<not> fails ?e' CONNECT" "\<not> fails ?e' (SELECT 0)" by simp_all
  from create_then_detail_round_trip [OF run st f] obtain qs rqs r where
    t: "get_field ?b ''questions'' = Some (JArr qs)"
       "getQuizDetail ?e' ?d' ''alice'' (Some (next_id ?e)) = Some r" "status r = 200"
       "Option.bind (get_field (body r) ''quiz'') (\<lambda>q. get_field q ''questions'') = Some (JArr rqs)"
       "length rqs = length qs"
       "\<forall>k<length qs.
               get_field (rqs ! k) ''question'' = get_field (qs ! k) ''question''
             \<and> get_field (rqs ! k) ''options'' = get_field (qs ! k) ''options''
             \<and> get_field (rqs ! k) ''correctAnswer'' = get_field (qs ! k) ''correctAnswer''
             \<and> get_field (rqs ! k) ''explanation'' =
                 Some (case get_field (qs ! k) ''explanation'' of
                         Some x \<Rightarrow> if js_truthy (Some x) then x else JStr ''No explanation provided''
                       | None \<Rightarrow> JStr ''No explanation provided'')"
    by blast
  from t(1) have qs: "qs = [?q]" by simp
  from t(5) qs have l: "length rqs = 1" by simp
  from t(6) qs have
    "get_field (rqs ! 0) ''options''
       = Some (JArr [JStr ''London'', JStr ''Paris'', JStr ''Berlin'', JStr ''Madrid''])"
    "get_field (rqs ! 0) ''correctAnswer'' = Some (JInt 1)"
    "get_field (rqs ! 0) ''explanation'' = Some (JStr ''Paris is the capital of France'')"
    by simp_all
  with run t(2,3,4) l show ?thesis by simp
qed

text \<open>
  Claim C6 as stated wants the explanation identical in every case.  The client sends the
  empty string when the model gave no explanation; the detail answer replaces it.
\<close>

theorem empty_explanation_counterexample:
  "createQuiz (\<lambda>s. None) \<lparr> now = 50, next_id = 1, fails = (\<lambda>s. False) \<rparr>
         \<lparr> quizzes = [], quiz_results = [], quiz_history = [] \<rparr> ''alice''
         (JObj [(''title'', JStr ''Geography Quiz''), (''topic'', JStr ''Geography''),
                (''numQuestions'', JInt 1), (''difficulty'', JStr ''Easy''),
                (''questionType'', JStr ''True/False''), (''language'', JStr ''english''),
                (''questions'', JArr [JObj [(''question'', JStr ''The Earth is flat.''),
                                            (''explanation'', JStr []),
                                            (''correctAnswer'', JInt 1),
                                            (''options'', JArr [JStr ''True'', JStr ''False''])]])])
   = (\<lparr> status = 201,
         body = JObj
           [(''status'', JStr ''success''),
            (''message'', JStr ''Quiz created successfully''),
            (''quiz'', JObj
               [(''id'', JInt 1), (''title'', JStr ''Geography Quiz''),
                (''topic'', JStr ''Geography''), (''numQuestions'', JInt 1),
                (''difficulty'', JStr ''Easy''), (''questionType'', JStr ''True/False''),
                (''language'', JStr ''english'')])] \<rparr>,
      \<lparr> quizzes =
          [\<lparr> qz_id = 1, qz_user_id = ''alice'', qz_title = ''Geography Quiz'',
             qz_topic = Some ''Geography'', qz_num_questions = 1, qz_difficulty = ''Easy'',
             qz_question_type = ''True/False'', qz_language = ''english'',
             qz_questions =
               [\<lparr> sq_question = ''The Earth is flat.'', sq_correctAnswer = JInt 1,
                  sq_explanation = Some (JStr []), sq_options = [''True'', ''False''] \<rparr>],
             qz_created_at = 50, qz_updated_at = 50 \<rparr>],
        quiz_results = [], quiz_history = [] \<rparr>)
   \<and> getQuizDetail \<lparr> now = 60, next_id = 1, fails = (\<lambda>s. False) \<rparr>
        \<lparr> quizzes =
          [\<lparr> qz_id = 1, qz_user_id = ''alice'', qz_title = ''Geography Quiz'',
             qz_topic = Some ''Geography'', qz_num_questions = 1, qz_difficulty = ''Easy'',
             qz_question_type = ''True/False'', qz_language = ''english'',
             qz_questions =
               [\<lparr> sq_question = ''The Earth is flat.'', sq_correctAnswer = JInt 1,
                  sq_explanation = Some (JStr []), sq_options = [''True'', ''False''] \<rparr>],
             qz_created_at = 50, qz_updated_at = 50 \<rparr>],
        quiz_results = [], quiz_history = [] \<rparr> ''alice'' (Some 1)
   = Some \<lparr> status = 200,
        body = JObj
          [(''status'', JStr ''success''),
           (''quiz'', JObj
              [(''id'', JInt 1), (''topic'', JStr ''Geography''),
               (''title'', JStr ''Geography Quiz''), (''difficulty'', JStr ''Easy''),
               (''question_type'', JStr ''True/False''), (''num_questions'', JInt 1),
               (''created_at'', JInt 50), (''highest_score'', JInt 0),
               (''attempts_count'', JInt 0),
               (''questions'', JArr
                  [JObj [(''question'', JStr ''The Earth is flat.''),
                         (''options'', JArr [JStr ''True'', JStr ''False'']),
                         (''correctAnswer'', JInt 1),
                         (''explanation'', JStr ''No explanation provided'')]]),
               (''attempt_history'', JArr [])])] \<rparr>
   \<and> JStr ''No explanation provided'' \<noteq> JStr []"
  by code_simp

subsection \<open>Recording results and history\<close>








text \<open>
  A valid request for an existing quiz is stored and answered 201 when no statement fails
  and the sequence hands out an unused id.
\<close>

lemma postQuizResult_accepts:
  assumes v: "quizResultSchema toNumber reqBody = Some v"
    and q: "q \<in> set (quizzes d)" "qz_id q = rv_quizId v"
    and ok: "\<forall>s\<in>{CONNECT, SELECT 0, BEGIN, INSERT, COMMIT}. \<not> fails e s"
    and fresh: "next_id e \<notin> set (map rs_id (quiz_results d))"
  shows "postQuizResult toNumber e (connect d) caller reqBody
           = (Some \<lparr> status = 201,
                      body = JObj
                        [(''status'', JStr ''success''),
                         (''message'', JStr ''Quiz result saved successfully''),
                         (''result'', result_json (new_result_row e caller v))] \<rparr>,
              connect (d \<lparr> quiz_results := quiz_results d @ [new_result_row e caller v] \<rparr>))"
proof -
  from q have "filter (\<lambda>r. qz_id r = rv_quizId v) (quizzes d) \<noteq> []"
    by (auto simp: filter_empty_conv)
  with v ok fresh show ?thesis
    by (simp add: postQuizResult_def quiz_result_try_def finish_def connect_def visible_def
          tx_begin_def tx_write_def tx_commit_def release_def Let_def)
qed




subsection \<open>Quizzes of other users\<close>

lemma key_unique:
  assumes "distinct (map f xs)" and "x \<in> set xs" and "y \<in> set xs" and "f y = f x"
  shows "y = x"
  using assms by (meson distinct_map inj_onD)

lemma filter_by_key:
  assumes "distinct (map f xs)" and "x \<in> set xs"
  shows "filter (\<lambda>y. f y = f x) xs = [x]"
  using assms
proof (induction xs)
  case Nil
  then show ?case by simp
next
  case (Cons a xs)
  show ?case
  proof (cases "a = x")
    case True
    with Cons.prems(1) have "f x \<notin> f ` set xs" by simp
    then have "\<forall>y\<in>set xs. f y \<noteq> f x" by (metis imageI)
    then have "filter (\<lambda>y. f y = f x) xs = []" by (simp add: filter_empty_conv)
    with True show ?thesis by simp
  next
    case False
    with Cons.prems have x: "x \<in> set xs" and d: "distinct (map f xs)" by auto
    from Cons.prems x have "f a \<noteq> f x" by force
    with Cons.IH [OF d x] show ?thesis by simp
  qed
qed

text \<open>
  Claim C1, as the code has it.  Let a quiz belong to another user than the caller, ids
  being unique as the primary key makes them.  \<^verbatim>\<open>GET /api/quizzes/:id\<close> answers the caller
  exactly as it would on an empty database: with 404 when no statement fails.
  \<^verbatim>\<open>GET /api/quizzes/:id/take\<close> and the check in \<^verbatim>\<open>POST /api/quiz-results\<close> look the
  quiz up by its id alone: any authenticated caller gets the quiz's title, topic and the
  text and options of its questions (answers and explanations are left out), and a result
  of the caller's for that quiz is accepted and stored under the caller's id.  The client
  shares a quiz through a link made of its id.
\<close>

theorem foreign_quiz_access:
  assumes pk: "distinct (map qz_id (quizzes d))"
    and q: "q \<in> set (quizzes d)" and other: "qz_user_id q \<noteq> caller"
  shows "getQuizDetail e d caller (Some (qz_id q))
           = getQuizDetail e \<lparr> quizzes = [], quiz_results = [], quiz_history = [] \<rparr> caller
               (Some (qz_id q))
       \<and> (\<not> fails e CONNECT \<and> \<not> fails e (SELECT 0) \<longrightarrow>
            getQuizDetail e d caller (Some (qz_id q)) = Some not_found)
       \<and> (\<not> fails e (SELECT 0) \<longrightarrow>
            takeQuiz e d caller (Some (qz_id q))
              = \<lparr> status = 200,
                  body = JObj
                    [(''id'', JInt (qz_id q)),
                     (''title'', JStr (qz_title q)),
                     (''topic'', opt_str (qz_topic q)),
                     (''num_questions'', JInt (qz_num_questions q)),
                     (''difficulty'', JStr (qz_difficulty q)),
                     (''question_type'', JStr (qz_question_type q)),
                     (''jsonb_agg'',
                        (if qz_questions q = [] then JNull
                         else JArr (map take_question (qz_questions q))))] \<rparr>)
       \<and> (\<forall>toNumber reqBody v.
             quizResultSchema toNumber reqBody = Some v \<and> rv_quizId v = qz_id q \<and>
             (\<forall>s. \<not> fails e s) \<and> next_id e \<notin> set (map rs_id (quiz_results d)) \<longrightarrow>
             (\<exists>resp. postQuizResult toNumber e (connect d) caller reqBody
                       = (Some resp,
                          connect
                            (d \<lparr> quiz_results := quiz_results d @ [new_result_row e caller v] \<rparr>))
                     \<and> status resp = 201))"
proof -
  have none: "filter (\<lambda>r. qz_id r = qz_id q \<and> qz_user_id r = caller) (quizzes d) = []"
  proof -
    have "\<not> (qz_id r = qz_id q \<and> qz_user_id r = caller)" if "r \<in> set (quizzes d)" for r
      using key_unique [OF pk q that] other by auto
    then show ?thesis by (simp add: filter_empty_conv)
  qed
  have one: "filter (\<lambda>r. qz_id r = qz_id q) (quizzes d) = [q]"
    using filter_by_key [OF pk q] .
  have a: "getQuizDetail e d caller (Some (qz_id q))
           = getQuizDetail e \<lparr> quizzes = [], quiz_results = [], quiz_history = [] \<rparr> caller
               (Some (qz_id q))"
    by (simp add: getQuizDetail_def none)
  have b: "\<not> fails e CONNECT \<and> \<not> fails e (SELECT 0) \<longrightarrow>
            getQuizDetail e d caller (Some (qz_id q)) = Some not_found"
    by (simp add: getQuizDetail_def none)
  have c: "\<not> fails e (SELECT 0) \<longrightarrow>
            takeQuiz e d caller (Some (qz_id q))
              = \<lparr> status = 200,
                  body = JObj
                    [(''id'', JInt (qz_id q)),
                     (''title'', JStr (qz_title q)),
                     (''topic'', opt_str (qz_topic q)),
                     (''num_questions'', JInt (qz_num_questions q)),
                     (''difficulty'', JStr (qz_difficulty q)),
                     (''question_type'', JStr (qz_question_type q)),
                     (''jsonb_agg'',
                        (if qz_questions q = [] then JNull
                         else JArr (map take_question (qz_questions q))))] \<rparr>"
    by (simp add: takeQuiz_def one)
  have d: "\<exists>resp. postQuizResult toNumber e (connect d) caller reqBody
                       = (Some resp,
                          connect
                            (d \<lparr> quiz_results := quiz_results d @ [new_result_row e caller v] \<rparr>))
                     \<and> status resp = 201"
    if "quizResultSchema toNumber reqBody = Some v \<and> rv_quizId v = qz_id q \<and>
             (\<forall>s. \<not> fails e s) \<and> next_id e \<notin> set (map rs_id (quiz_results d))"
    for toNumber reqBody v
    using postQuizResult_accepts [of toNumber reqBody v q d e caller] that q by simp
  from a b c d show ?thesis by blast
qed

text \<open>Bob asks for the details of Alice's quiz.\<close>

theorem foreign_quiz_access_witness:
  "distinct (map qz_id (quizzes example_db))
   \<and> hd (quizzes example_db) \<in> set (quizzes example_db)
   \<and> qz_user_id (hd (quizzes example_db)) \<noteq> ''bob''
   \<and> getQuizDetail example_env example_db ''bob'' (Some 1)
        = Some \<lparr> status = 404,
                 body = JObj [(''status'', JStr ''error''), (''message'', JStr ''Quiz not found'')] \<rparr>
   \<and> getQuizDetail example_env example_db ''bob'' (Some 1)
        = getQuizDetail example_env \<lparr> quizzes = [], quiz_results = [], quiz_history = [] \<rparr> ''bob''
            (Some 1)"
proof -
  let ?q = "hd (quizzes example_db)"
  have h1: "distinct (map qz_id (quizzes example_db))" by (simp add: example_db_def)
  have h2: "?q \<in> set (quizzes example_db)" by (simp add: example_db_def)
  have h3: "qz_user_id ?q \<noteq> ''bob''" by (simp add: example_db_def)
  have i: "qz_id ?q = 1" by (simp add: example_db_def)
  have f: "\<not> fails example_env CONNECT \<and> \<not> fails example_env (SELECT 0)"
    by (simp add: example_env_def)
  from foreign_quiz_access [OF h1 h2 h3, of example_env] f
  have "getQuizDetail example_env example_db ''bob'' (Some (qz_id ?q)) = Some not_found"
    and "getQuizDetail example_env example_db ''bob'' (Some (qz_id ?q))
        = getQuizDetail example_env \<lparr> quizzes = [], quiz_results = [], quiz_history = [] \<rparr> ''bob''
            (Some (qz_id ?q))"
    by blast+
  with h1 h2 h3 show ?thesis unfolding i by (simp add: not_found_def)
qed

text \<open>
  Claim C1 as stated says that no answer to Bob shows Alice's quiz or confirms that it
  exists.  Bob takes Alice's quiz and gets its question; Bob's result for it is accepted
  and stored.
\<close>

theorem foreign_quiz_taken_counterexample:
  "qz_user_id (hd (quizzes example_db)) = ''alice''
   \<and> takeQuiz example_env example_db ''bob'' (Some 1)
      = \<lparr> status = 200,
           body = JObj
             [(''id'', JInt 1), (''title'', JStr ''Geography Quiz''),
              (''topic'', JStr ''Geography''), (''num_questions'', JInt 1),
              (''difficulty'', JStr ''Easy''), (''question_type'', JStr ''True/False''),
              (''jsonb_agg'',
                 JArr [JObj [(''options'', JArr [JStr ''True'', JStr ''False'']),
                             (''question'', JStr ''The Earth is flat.'')]])] \<rparr>
   \<and> postQuizResult (\<lambda>s. None) example_env (connect example_db) ''bob'' example_result
      = (Some \<lparr> status = 201,
                body = JObj
                  [(''status'', JStr ''success''),
                   (''message'', JStr ''Quiz result saved successfully''),
                   (''result'', JObj
                      [(''id'', JInt 1), (''user_id'', JStr ''bob''), (''quiz_id'', JInt 1),
                       (''score'', JInt 1), (''total_questions'', JInt 1),
                       (''user_answers'',
                          JArr [JObj [(''answer'', JInt 1), (''correct'', JBool True),
                                      (''questionIndex'', JInt 0)]]),
                       (''completed_at'', JInt 70), (''time_taken'', JInt 0)])] \<rparr>,
         connect (example_db \<lparr> quiz_results :=
           [\<lparr> rs_id = 1, rs_user_id = ''bob'', rs_quiz_id = 1, rs_score = 1,
              rs_total_questions = 1,
              rs_user_answers =
                JArr [JObj [(''answer'', JInt 1), (''correct'', JBool True),
                            (''questionIndex'', JInt 0)]],
              rs_completed_at = 70, rs_time_taken = 0 \<rparr>] \<rparr>))"
  by code_simp

subsection \<open>From generation to the database\<close>

lemma question_payload_answer:
  "get_field (question_payload f) ''correctAnswer'' = map_option JInt (fq_correctAnswer f)"
  by (simp add: question_payload_def split: option.splits)

lemma requestPayload_questions:
  "get_field (requestPayload topic n difficulty questionType language fs) ''questions''
     = Some (JArr (map question_payload fs))"
  by (simp add: requestPayload_def)

lemma stored_answers:
  assumes create: "createQuiz toNumber e d userId
                     (requestPayload topic n difficulty questionType language fs) = (resp, d')"
    and created: "status resp = 201"
  shows "\<exists>row. d' = d \<lparr> quizzes := quizzes d @ [row] \<rparr> \<and> qz_user_id row = userId \<and>
           length (qz_questions row) = length fs \<and>
           (\<forall>k<length fs. map_option JInt (fq_correctAnswer (fs ! k))
                             = Some (sq_correctAnswer (qz_questions row ! k)))"
proof -
  let ?b = "requestPayload topic n difficulty questionType language fs"
  from createQuiz_created [OF create created] obtain v row where
    v: "quizSchema toNumber
          (if \<not> js_truthy (get_field ?b ''language'')
           then set_field ?b ''language'' (JStr ''english'') else ?b) = Some v"
    and ins: "insert_quiz e d userId v = Some (row, d')"
    by blast
  note i = insert_quiz_SomeD [OF ins]
  from quizSchema_SomeD [OF v] obtain kvs qs where
    b: "(if \<not> js_truthy (get_field ?b ''language'')
         then set_field ?b ''language'' (JStr ''english'') else ?b) = JObj kvs"
    and qs: "map_of kvs ''questions'' = Some (JArr qs)"
       "those (map question_item qs) = Some (qv_questions v)"
    by blast
  have "get_field ?b ''questions'' = Some (JArr qs)"
    using language_default_fields [OF b, of "''questions''"] qs(1) by simp
  then have q: "qs = map question_payload fs" by (simp add: requestPayload_questions)
  from qs(2) have len: "length (qv_questions v) = length qs"
    and items: "\<forall>k<length qs. question_item (qs ! k) = Some (qv_questions v ! k)"
    by (simp_all add: those_map_Some_iff)
  have "map_option JInt (fq_correctAnswer (fs ! k)) = Some (sq_correctAnswer (qv_questions v ! k))"
    if k: "k < length fs" for k
  proof -
    from k items q have "question_item (question_payload (fs ! k)) = Some (qv_questions v ! k)"
      by simp
    from question_item_SomeD [OF this] obtain kvs' where
      "question_payload (fs ! k) = JObj kvs'"
      "map_of kvs' ''correctAnswer'' = Some (sq_correctAnswer (qv_questions v ! k))" by blast
    then have "get_field (question_payload (fs ! k)) ''correctAnswer''
                 = Some (sq_correctAnswer (qv_questions v ! k))" by simp
    then show ?thesis by (simp add: question_payload_answer)
  qed
  with i len q show ?thesis by (intro exI [of _ row]) simp
qed

text \<open>
  Claim C3.  \<open>saveQuiz\<close> passes the normalizer's output through \<open>formatQuizQuestions\<close>
  and posts the result.  Whenever the normalizer accepts a True/False batch, every question
  of its output carries a numeric index \<open>i\<close> in \<open>{0, 1}\<close>; the formatting pass succeeds,
  keeps length and order, and gives the question the index \<open>1 - i\<close>: \<^verbatim>\<open>String(0)\<close> is
  neither \<^verbatim>\<open>"true"\<close> nor \<^verbatim>\<open>"1"\<close>, and \<^verbatim>\<open>String(1)\<close> is \<^verbatim>\<open>"1"\<close>.  Whenever the server
  then accepts the request, the quiz it stores holds \<open>1 - i\<close> as the answer of every
  question.
\<close>

theorem true_false_index_negated_on_save:
  assumes "validateAndParseQuizData numQuestions ''True/False'' parsed = (logged, Some out)"
  shows "\<exists>fs. formatQuizQuestions (Some out) ''True/False'' = Inr fs \<and> length fs = length out
         \<and> (\<forall>k<length out. \<exists>i. (i = 0 \<or> i = 1) \<and>
               get_field (out ! k) ''correctAnswer'' = Some (JInt i) \<and>
               fq_correctAnswer (fs ! k) = Some (1 - i))
         \<and> (\<forall>toNumber e d userId topic difficulty language resp d'.
               createQuiz toNumber e d userId
                 (requestPayload topic numQuestions difficulty ''True/False'' language fs) = (resp, d')
               \<and> status resp = 201 \<longrightarrow>
               (\<exists>row. d' = d \<lparr> quizzes := quizzes d @ [row] \<rparr> \<and> qz_user_id row = userId \<and>
                  length (qz_questions row) = length out \<and>
                  (\<forall>k<length out. \<exists>i. get_field (out ! k) ''correctAnswer'' = Some (JInt i) \<and>
                       sq_correctAnswer (qz_questions row ! k) = JInt (1 - i))))"
proof -
  from format_negates_index [OF assms] obtain fs where
    fs: "formatQuizQuestions (Some out) ''True/False'' = Inr fs" "length fs = length out"
    and neg: "\<forall>k<length out. \<exists>i. (i = 0 \<or> i = 1) \<and>
               get_field (out ! k) ''correctAnswer'' = Some (JInt i) \<and>
               fq_correctAnswer (fs ! k) = Some (1 - i)"
    by blast
  have "\<exists>row. d' = d \<lparr> quizzes := quizzes d @ [row] \<rparr> \<and> qz_user_id row = userId \<and>
                  length (qz_questions row) = length out \<and>
                  (\<forall>k<length out. \<exists>i. get_field (out ! k) ''correctAnswer'' = Some (JInt i) \<and>
                       sq_correctAnswer (qz_questions row ! k) = JInt (1 - i))"
    if "createQuiz toNumber e d userId
          (requestPayload topic numQuestions difficulty ''True/False'' language fs) = (resp, d')
        \<and> status resp = 201"
    for toNumber e d userId topic difficulty language resp d'
  proof -
    from that stored_answers obtain row where
      row: "d' = d \<lparr> quizzes := quizzes d @ [row] \<rparr>" "qz_user_id row = userId"
        "length (qz_questions row) = length fs"
        "\<forall>k<length fs. map_option JInt (fq_correctAnswer (fs ! k))
                             = Some (sq_correctAnswer (qz_questions row ! k))"
      by blast
    have "\<exists>i. get_field (out ! k) ''correctAnswer'' = Some (JInt i) \<and>
                       sq_correctAnswer (qz_questions row ! k) = JInt (1 - i)"
      if k: "k < length out" for k
    proof -
      from neg k obtain i where
        i: "get_field (out ! k) ''correctAnswer'' = Some (JInt i)"
           "fq_correctAnswer (fs ! k) = Some (1 - i)" by blast
      from row(4) k fs(2) have "map_option JInt (fq_correctAnswer (fs ! k))
                             = Some (sq_correctAnswer (qz_questions row ! k))" by simp
      with i show ?thesis by simp
    qed
    with row fs(2) show ?thesis by (intro exI [of _ row]) simp
  qed
  with fs neg show ?thesis by (intro exI [of _ fs]) blast
qed

text \<open>
  The model answers \<^verbatim>\<open>false\<close> and \<^verbatim>\<open>"true"\<close>.  The normalizer makes the indices 1 and 0
  of them (False and True); the quiz is stored with 0 and 1 (True and False).
\<close>

theorem true_false_index_negated_on_save_witness:
  "validateAndParseQuizData 2 ''True/False''
     (Some (JArr [JObj [(''question'', JStr ''The Earth is flat''), (''correctAnswer'', JBool False)],
                  JObj [(''question'', JStr ''Water is wet?''), (''correctAnswer'', JStr ''true'')]]))
   = (None, Some [JObj [(''question'', JStr ''The Earth is flat.''), (''correctAnswer'', JInt 1),
                        (''explanation'', JStr [])],
                  JObj [(''question'', JStr ''Water is wet?''), (''correctAnswer'', JInt 0),
                        (''explanation'', JStr [])]])
   \<and> (\<exists>fs resp row.
         formatQuizQuestions
           (Some [JObj [(''question'', JStr ''The Earth is flat.''), (''correctAnswer'', JInt 1),
                        (''explanation'', JStr [])],
                  JObj [(''question'', JStr ''Water is wet?''), (''correctAnswer'', JInt 0),
                        (''explanation'', JStr [])]]) ''True/False'' = Inr fs
       \<and> fq_correctAnswer (fs ! 0) = Some 0 \<and> fq_correctAnswer (fs ! 1) = Some 1
       \<and> createQuiz (\<lambda>s. None) \<lparr> now = 50, next_id = 1, fails = (\<lambda>s. False) \<rparr>
            \<lparr> quizzes = [], quiz_results = [], quiz_history = [] \<rparr> ''alice''
            (requestPayload ''Science'' 2 ''Easy'' ''True/False'' ''english'' fs)
          = (resp, \<lparr> quizzes = [row], quiz_results = [], quiz_history = [] \<rparr>)
       \<and> status resp = 201
       \<and> sq_correctAnswer (qz_questions row ! 0) = JInt 0
       \<and> sq_correctAnswer (qz_questions row ! 1) = JInt 1)"
proof -
  let ?out = "[JObj [(''question'', JStr ''The Earth is flat.''), (''correctAnswer'', JInt 1),
                        (''explanation'', JStr [])],
                  JObj [(''question'', JStr ''Water is wet?''), (''correctAnswer'', JInt 0),
                        (''explanation'', JStr [])]]"
  let ?fs = "[\<lparr> fq_question = Some (JStr ''The Earth is flat.''), fq_explanation = JStr [],
                fq_correctAnswer = Some 0, fq_options = Some [''True'', ''False''] \<rparr>,
              \<lparr> fq_question = Some (JStr ''Water is wet?''), fq_explanation = JStr [],
                fq_correctAnswer = Some 1, fq_options = Some [''True'', ''False''] \<rparr>]"
  let ?e = "\<lparr> now = 50, next_id = 1, fails = (\<lambda>s. False) \<rparr>"
  let ?d = "\<lparr> quizzes = [], quiz_results = [], quiz_history = [] \<rparr>"
  have h: "validateAndParseQuizData 2 ''True/False''
     (Some (JArr [JObj [(''question'', JStr ''The Earth is flat''), (''correctAnswer'', JBool False)],
                  JObj [(''question'', JStr ''Water is wet?''), (''correctAnswer'', JStr ''true'')]]))
   = (None, Some ?out)"
    by code_simp
  have fmt: "formatQuizQuestions (Some ?out) ''True/False'' = Inr ?fs"
    by code_simp
  obtain resp d' where
    run: "createQuiz (\<lambda>s. None) ?e ?d ''alice''
            (requestPayload ''Science'' 2 ''Easy'' ''True/False'' ''english'' ?fs) = (resp, d')"
    by (cases "createQuiz (\<lambda>s. None) ?e ?d ''alice''
            (requestPayload ''Science'' 2 ''Easy'' ''True/False'' ''english'' ?fs)")
  have st: "status resp = 201"
    using run [symmetric] by (simp add: prod_eq_iff) code_simp
  from true_false_index_negated_on_save [OF h] fmt
  have "\<forall>toNumber e d userId topic difficulty language resp d'.
               createQuiz toNumber e d userId
                 (requestPayload topic 2 difficulty ''True/False'' language ?fs) = (resp, d')
               \<and> status resp = 201 \<longrightarrow>
               (\<exists>row. d' = d \<lparr> quizzes := quizzes d @ [row] \<rparr> \<and> qz_user_id row = userId \<and>
                  length (qz_questions row) = length ?out \<and>
                  (\<forall>k<length ?out. \<exists>i. get_field (?out ! k) ''correctAnswer'' = Some (JInt i) \<and>
                       sq_correctAnswer (qz_questions row ! k) = JInt (1 - i)))"
    by auto
  with run st obtain row where
    row: "d' = ?d \<lparr> quizzes := quizzes ?d @ [row] \<rparr>"
      "\<forall>k<length ?out. \<exists>i. get_field (?out ! k) ''correctAnswer'' = Some (JInt i) \<and>
                       sq_correctAnswer (qz_questions row ! k) = JInt (1 - i)"
    by blast
  from row(2) have a: "sq_correctAnswer (qz_questions row ! 0) = JInt 0"
    "sq_correctAnswer (qz_questions row ! 1) = JInt 1"
    by (auto simp: All_less_Suc2)
  from row(1) have d': "d' = \<lparr> quizzes = [row], quiz_results = [], quiz_history = [] \<rparr>" by simp
  show ?thesis
    using h fmt run st a unfolding d'
    by (intro conjI exI [of _ ?fs] exI [of _ resp] exI [of _ row]) simp_all
qed

end
